theory Spec2Isabelle
  imports Complex_Main "HOL-Library.Word"
begin

section \<open>Candidate selection of alphadia: hybrid and MS1-centric elution groups\<close>

text \<open>
  The development follows \<^verbatim>\<open>alphadia/extraction/hybridselection.py\<close> and
  \<^verbatim>\<open>alphadia/extraction/candidateselection.py\<close>. Floating-point values
  (m/z, intensities, retention times) are read as real numbers: comparisons of finite
  floats agree with the comparisons of the reals they denote, and where a result depends
  on rounding this is said at the place. Exceptions are values of \<open>py_error\<close>.
\<close>

datatype py_error = IndexError | ValueError | ZeroDivisionError | TypeError

definition bind_err :: "py_error + 'a \<Rightarrow> ('a \<Rightarrow> py_error + 'b) \<Rightarrow> py_error + 'b" where
  "bind_err m f = (case m of Inl e \<Rightarrow> Inl e | Inr x \<Rightarrow> f x)"

subsection \<open>The DIA cycle mask\<close>

text \<open>
  A quadrupole window is a pair (lower m/z, upper m/z). The cycle descriptor has shape
  (subcycles, frames, scans, 2); \<^verbatim>\<open>cycle.reshape(-1, 2)\<close> lists its windows in row-major
  order.
\<close>

type_synonym mz_window = "real \<times> real"

definition reshape_cycle :: "mz_window list list list \<Rightarrow> mz_window list" where
  "reshape_cycle cycle = concat (concat cycle)"

definition zeros_mask :: "nat \<Rightarrow> nat \<Rightarrow> bool list list" where
  "zeros_mask n m = replicate n (replicate m False)"

definition set_mask :: "bool list list \<Rightarrow> nat \<Rightarrow> nat \<Rightarrow> bool list list" where
  "set_mask mz_mask j i = mz_mask[j := (mz_mask ! j)[i := True]]"

text \<open>The inner loop \<^verbatim>\<open>for j, (quad_mz_start, quad_mz_stop) in enumerate(quad_slices)\<close>.\<close>

fun mask_quad_loop ::
  "nat \<Rightarrow> mz_window \<Rightarrow> (nat \<times> mz_window) list \<Rightarrow> bool list list \<Rightarrow> bool list list" where
  "mask_quad_loop i (mz_start, mz_stop) [] mz_mask = mz_mask"
| "mask_quad_loop i (mz_start, mz_stop) ((j, (quad_mz_start, quad_mz_stop)) # rest) mz_mask =
     mask_quad_loop i (mz_start, mz_stop) rest
       (if quad_mz_start \<le> mz_stop \<and> quad_mz_stop \<ge> mz_start
        then set_mask mz_mask j i else mz_mask)"

text \<open>The outer loop \<^verbatim>\<open>for i, (mz_start, mz_stop) in enumerate(dia_mz_cycle)\<close>.\<close>

fun mask_cycle_loop ::
  "(nat \<times> mz_window) list \<Rightarrow> (nat \<times> mz_window) list \<Rightarrow> bool list list \<Rightarrow> bool list list" where
  "mask_cycle_loop [] quads mz_mask = mz_mask"
| "mask_cycle_loop ((i, w) # rest) quads mz_mask =
     mask_cycle_loop rest quads (mask_quad_loop i w quads mz_mask)"

definition calculate_dia_cycle_mask ::
  "mz_window list list list \<Rightarrow> mz_window list \<Rightarrow> bool list list" where
  "calculate_dia_cycle_mask cycle quad_slices =
     (let n_score_groups = length quad_slices;
          dia_mz_cycle = reshape_cycle cycle;
          mz_mask = zeros_mask n_score_groups (length dia_mz_cycle)
      in mask_cycle_loop (enumerate 0 dia_mz_cycle) (enumerate 0 quad_slices) mz_mask)"

subsection \<open>Quadrupole limits of a score group\<close>

text \<open>
  NumPy helpers as the source uses them. \<^verbatim>\<open>a[mask]\<close> with a boolean mask keeps the
  entries whose mask is set; \<^verbatim>\<open>min()\<close> and \<^verbatim>\<open>max()\<close> of an empty array raise
  ValueError; an integer index on the first axis counts from the end when negative and
  raises IndexError outside the axis; storing a scalar into a row fills the row.
\<close>

definition zeros2 :: "nat \<Rightarrow> nat \<Rightarrow> real list list" where
  "zeros2 n m = replicate n (replicate m 0)"

definition boolean_select :: "'a list \<Rightarrow> bool list \<Rightarrow> py_error + 'a list" where
  "boolean_select xs keep =
     (if length keep \<noteq> length xs then Inl IndexError
      else Inr (map fst (filter snd (zip xs keep))))"

fun array_min :: "real list \<Rightarrow> py_error + real" where
  "array_min [] = Inl ValueError"
| "array_min (x # xs) = Inr (fold min xs x)"

fun array_max :: "real list \<Rightarrow> py_error + real" where
  "array_max [] = Inl ValueError"
| "array_max (x # xs) = Inr (fold max xs x)"

definition axis_index :: "nat \<Rightarrow> int \<Rightarrow> py_error + nat" where
  "axis_index n i =
     (let j = (if i < 0 then int n + i else i)
      in if 0 \<le> j \<and> j < int n then Inr (nat j) else Inl IndexError)"

definition set_row :: "real list list \<Rightarrow> int \<Rightarrow> real \<Rightarrow> py_error + real list list" where
  "set_row a i v =
     bind_err (axis_index (length a) i) (\<lambda>j. Inr (a[j := replicate (length (a ! j)) v]))"

text \<open>
  \<^verbatim>\<open>calculate_score_group_limits\<close>: the array has shape (1, 2), and the two stores are
  \<^verbatim>\<open>quadrupole_mz[0] = ...min()\<close> and \<^verbatim>\<open>quadrupole_mz[1] = ...max()\<close>, both on the
  first axis.
\<close>

definition calculate_score_group_limits :: "real list \<Rightarrow> real list \<Rightarrow> py_error + real list list" where
  "calculate_score_group_limits precursor_mz precursor_intensity =
     (let quadrupole_mz = zeros2 1 2;
          keep = map (\<lambda>x. x > 0) precursor_intensity
      in bind_err (boolean_select precursor_mz keep) (\<lambda>selected.
         bind_err (array_min selected) (\<lambda>lowest.
         bind_err (set_row quadrupole_mz 0 lowest) (\<lambda>quadrupole_mz.
         bind_err (array_max selected) (\<lambda>highest.
         bind_err (set_row quadrupole_mz 1 highest) (\<lambda>quadrupole_mz.
         Inr quadrupole_mz))))))"

subsection \<open>Slices and frame limits\<close>

text \<open>
  \<^verbatim>\<open>expand_if_odd\<close> and \<^verbatim>\<open>make_slice_1d\<close> take an array of shape (2,), a pair here.
  Frame indices are positions in the frame axis; \<^verbatim>\<open>make_slice_1d\<close> stores them as
  unsigned 64-bit integers.
\<close>

type_synonym slice = "64 word \<times> 64 word \<times> 64 word"

definition expand_if_odd :: "int \<times> int \<Rightarrow> int \<times> int" where
  "expand_if_odd limits =
     (if (snd limits - fst limits) mod 2 = 1 then (fst limits, snd limits + 1) else limits)"

definition make_slice_1d :: "int \<times> int \<Rightarrow> slice list" where
  "make_slice_1d start_stop = [(word_of_int (fst start_stop), word_of_int (snd start_stop), 1)]"

definition make_slice_2d :: "(int \<times> int) list \<Rightarrow> slice list" where
  "make_slice_2d start_stop = map (\<lambda>r. (word_of_int (fst r), word_of_int (snd r), 1)) start_stop"

text \<open>
  The raw-data object \<^verbatim>\<open>jit_data\<close>: its class is not part of the sources at hand, so
  its conversion methods are fields of function type and its arrays are lists.
\<close>

record TimsTOFJIT =
  return_frame_indices :: "real \<times> real \<Rightarrow> bool \<Rightarrow> int \<times> int"
  return_scan_indices :: "real \<times> real \<Rightarrow> int \<times> int"
  return_tof_indices :: "(real \<times> real) list \<Rightarrow> (int \<times> int) list"
  cycle :: "mz_window list list list"
  scan_max_index :: int
  zeroth_frame :: bool
  dia_mz_cycle :: "mz_window list"
  dia_precursor_cycle :: "int list"
  push_indices :: "int list"
  tof_indptr :: "int list"
  mz_values :: "real list"
  intensity_values_t :: "real list"

subsection \<open>The MS1-centric elution group\<close>

record ElutionGroup =
  elution_group_idx :: "32 word"
  precursor_idx :: "32 word list"
  rt :: real
  mobility :: real
  charge :: "8 word"
  decoy :: "8 word list"
  mz :: "real list"
  isotope_apex_offset :: "8 word list"
  top_isotope_mz :: "real list"
  frame_limits :: "slice list"
  scan_limits :: "slice list"
  tof_limits :: "slice list"

text \<open>
  \<^verbatim>\<open>np.argsort\<close> returns the positions of the entries in ascending order of value. Among
  equal values its default algorithm fixes no order; the model takes the stable one.
  \<^verbatim>\<open>a[order]\<close> gathers the entries of \<open>a\<close> at the positions in \<open>order\<close>.
\<close>

definition argsort :: "real list \<Rightarrow> nat list" where
  "argsort xs = map snd (sort_key fst (zip xs [0..<length xs]))"

definition gather :: "'a list \<Rightarrow> nat list \<Rightarrow> 'a list" where
  "gather xs order = map (\<lambda>i. xs ! i) order"

definition ElutionGroup_sort_by_mz :: "ElutionGroup \<Rightarrow> ElutionGroup" where
  "ElutionGroup_sort_by_mz self =
     (let mz_order = argsort (mz self)
      in self\<lparr>mz := gather (mz self) mz_order,
              decoy := gather (decoy self) mz_order,
              isotope_apex_offset := gather (isotope_apex_offset self) mz_order,
              top_isotope_mz := gather (top_isotope_mz self) mz_order,
              precursor_idx := gather (precursor_idx self) mz_order\<rparr>)"

definition ElutionGroup_determine_frame_limits :: "TimsTOFJIT \<Rightarrow> real \<Rightarrow> ElutionGroup \<Rightarrow> ElutionGroup" where
  "ElutionGroup_determine_frame_limits jit_data tolerance self =
     (let rt_limits = (rt self - tolerance, rt self + tolerance)
      in self\<lparr>frame_limits :=
           make_slice_1d (expand_if_odd (return_frame_indices jit_data rt_limits True))\<rparr>)"

definition ElutionGroup_determine_scan_limits :: "TimsTOFJIT \<Rightarrow> real \<Rightarrow> ElutionGroup \<Rightarrow> ElutionGroup" where
  "ElutionGroup_determine_scan_limits jit_data tolerance self =
     (let mobility_limits = (mobility self + tolerance, mobility self - tolerance)
      in self\<lparr>scan_limits :=
           make_slice_1d (expand_if_odd (return_scan_indices jit_data mobility_limits))\<rparr>)"

subsection \<open>The hybrid elution group\<close>

text \<open>
  A dense NumPy array is its shape together with its entries, addressed by an index
  vector. \<^verbatim>\<open>Candidate\<close> and the part of \<^verbatim>\<open>FragmentContainer\<close> that the selection code
  reads are records.
\<close>

record ndarray =
  shape :: "nat list"
  item :: "nat list \<Rightarrow> real"

record Candidate =
  id :: "32 word"

record FragmentContainer =
  fragment_precursor_idx :: "nat list"
  fragment_mz :: "real list"
  fragment_intensity :: "real list"
  fragment_cardinality :: "8 word list"

record HybridElutionGroup =
  score_group_idx :: "32 word"
  elution_group_idx :: "32 word"
  rt :: real
  mobility :: real
  charge :: "8 word"
  precursor_idx :: "32 word list"
  precursor_channel :: "32 word list"
  precursor_decoy :: "8 word list"
  precursor_mz :: "real list"
  precursor_abundance :: "real list"
  precursor_frag_start_stop_idx :: "(32 word \<times> 32 word) list"
  precursor_isotope_intensity :: "real list list"
  precursor_isotope_mz :: "real list list"
  frame_limits :: "slice list"
  scan_limits :: "slice list"
  precursor_tof_limits :: "slice list"
  fragment_tof_limits :: "slice list"
  fragments :: FragmentContainer
  candidates :: "Candidate list"
  dense_fragments :: ndarray
  dense_precursors :: ndarray
  score_group_fragment_mz :: "real list"
  score_group_precursor_mz :: "real list"
  score_group_precursor_intensity :: "real list"
  score_group_fragment_intensity :: "real list"

text \<open>\<^verbatim>\<open>HybridElutionGroup.sort_by_mz\<close>: four arrays are gathered by the m/z order.\<close>

definition sort_by_mz :: "HybridElutionGroup \<Rightarrow> HybridElutionGroup" where
  "sort_by_mz self =
     (let mz_order = argsort (precursor_mz self)
      in self\<lparr>precursor_mz := gather (precursor_mz self) mz_order,
              precursor_decoy := gather (precursor_decoy self) mz_order,
              precursor_idx := gather (precursor_idx self) mz_order,
              precursor_frag_start_stop_idx :=
                gather (precursor_frag_start_stop_idx self) mz_order\<rparr>)"

text \<open>
  \<^verbatim>\<open>HybridElutionGroup.determine_frame_limits\<close> and \<^verbatim>\<open>determine_scan_limits\<close> call
  \<^verbatim>\<open>utils.make_slice_1d\<close> on the converted range directly. The module \<^verbatim>\<open>utils\<close> is
  not among the sources; its \<^verbatim>\<open>make_slice_1d\<close> and \<^verbatim>\<open>make_slice_2d\<close> are taken to be
  the functions of these names in \<^verbatim>\<open>candidateselection.py\<close>.
\<close>

definition determine_frame_limits :: "TimsTOFJIT \<Rightarrow> real \<Rightarrow> HybridElutionGroup \<Rightarrow> HybridElutionGroup" where
  "determine_frame_limits jit_data tolerance self =
     (let rt_limits = (rt self - tolerance, rt self + tolerance)
      in self\<lparr>frame_limits := make_slice_1d (return_frame_indices jit_data rt_limits True)\<rparr>)"

definition determine_scan_limits :: "TimsTOFJIT \<Rightarrow> real \<Rightarrow> HybridElutionGroup \<Rightarrow> HybridElutionGroup" where
  "determine_scan_limits jit_data tolerance self =
     (let mobility_limits = (mobility self + tolerance, mobility self - tolerance)
      in self\<lparr>scan_limits := make_slice_1d (return_scan_indices jit_data mobility_limits)\<rparr>)"

text \<open>
  The claim about frame limits, in the words of the specification: the slice holds one
  (start, stop, step) row whose \<open>stop - start\<close> is even.
\<close>

definition frame_range_even :: "slice list \<Rightarrow> bool" where
  "frame_range_even limits =
     (case limits of [(start, stop, step)] \<Rightarrow> even (uint stop - uint start) | _ \<Rightarrow> False)"

subsection \<open>Checked reads and arithmetic\<close>

text \<open>
  Reading a list at an integer position, division and remainder raise as in Python; on
  the integers \<open>div\<close> and \<open>mod\<close> are Python's floor division and remainder. Index
  arithmetic is taken in the integers: the values are positions in arrays.
\<close>

definition list_get :: "'a list \<Rightarrow> int \<Rightarrow> py_error + 'a" where
  "list_get xs i = bind_err (axis_index (length xs) i) (\<lambda>j. Inr (xs ! j))"

definition py_floordiv :: "int \<Rightarrow> int \<Rightarrow> py_error + int" where
  "py_floordiv a b = (if b = 0 then Inl ZeroDivisionError else Inr (a div b))"

definition py_mod :: "int \<Rightarrow> int \<Rightarrow> py_error + int" where
  "py_mod a b = (if b = 0 then Inl ZeroDivisionError else Inr (a mod b))"

definition py_truediv :: "real \<Rightarrow> real \<Rightarrow> py_error + real" where
  "py_truediv a b = (if b = 0 then Inl ZeroDivisionError else Inr (a / b))"

definition py_range :: "int \<Rightarrow> int \<Rightarrow> int \<Rightarrow> py_error + int list" where
  "py_range start stop step =
     (if step = 0 then Inl ValueError
      else if step > 0
        then Inr (map (\<lambda>k. start + int k * step) [0..<nat ((stop - start + step - 1) div step)])
        else Inr (map (\<lambda>k. start + int k * step) [0..<nat ((start - stop - step - 1) div (- step))]))"

fun norm_indices :: "nat list \<Rightarrow> int list \<Rightarrow> py_error + nat list" where
  "norm_indices [] [] = Inr []"
| "norm_indices (n # ns) (i # rest) =
     bind_err (axis_index n i) (\<lambda>j. bind_err (norm_indices ns rest) (\<lambda>js. Inr (j # js)))"
| "norm_indices _ _ = Inl IndexError"

definition getitem :: "ndarray \<Rightarrow> int list \<Rightarrow> py_error + real" where
  "getitem a ixs = bind_err (norm_indices (shape a) ixs) (\<lambda>p. Inr (item a p))"

definition setitem :: "ndarray \<Rightarrow> int list \<Rightarrow> real \<Rightarrow> py_error + ndarray" where
  "setitem a ixs v = bind_err (norm_indices (shape a) ixs) (\<lambda>p. Inr (a\<lparr>item := (item a)(p := v)\<rparr>))"

definition np_zeros :: "int list \<Rightarrow> py_error + ndarray" where
  "np_zeros dims =
     (if \<exists>d \<in> set dims. d < 0 then Inl ValueError
      else Inr \<lparr>shape = map nat dims, item = (\<lambda>_. 0)\<rparr>)"

definition cycle_frames :: "TimsTOFJIT \<Rightarrow> nat" where
  "cycle_frames jit_data = (case cycle jit_data of [] \<Rightarrow> 0 | subcycle # _ \<Rightarrow> length subcycle)"

subsection \<open>Push indices of a cycle mask\<close>

text \<open>
  \<^verbatim>\<open>get_push_indices\<close>: the pushes of the frame and scan ranges whose position in the DIA
  cycle is set in the mask of some score group, with their precursor-cycle positions.
\<close>

fun push_group_loop ::
  "TimsTOFJIT \<Rightarrow> bool list list \<Rightarrow> int \<Rightarrow> int \<Rightarrow> nat list \<Rightarrow> int list \<times> int list \<Rightarrow>
   py_error + int list \<times> int list" where
  "push_group_loop jit_data cycle_mask push_index scan_in_dia_mz_cycle [] acc = Inr acc"
| "push_group_loop jit_data cycle_mask push_index scan_in_dia_mz_cycle (i # rest) acc =
     bind_err (list_get cycle_mask (int i)) (\<lambda>row.
     bind_err (list_get row scan_in_dia_mz_cycle) (\<lambda>selected.
     if selected
     then bind_err (list_get (dia_precursor_cycle jit_data) scan_in_dia_mz_cycle) (\<lambda>precursor_cycle.
          push_group_loop jit_data cycle_mask push_index scan_in_dia_mz_cycle rest
            (fst acc @ [push_index], snd acc @ [precursor_cycle]))
     else push_group_loop jit_data cycle_mask push_index scan_in_dia_mz_cycle rest acc))"

fun push_scan_loop ::
  "TimsTOFJIT \<Rightarrow> bool list list \<Rightarrow> int \<Rightarrow> int list \<Rightarrow> int list \<times> int list \<Rightarrow>
   py_error + int list \<times> int list" where
  "push_scan_loop jit_data cycle_mask frame_index [] acc = Inr acc"
| "push_scan_loop jit_data cycle_mask frame_index (scan_index # rest) acc =
     (let push_index = frame_index * scan_max_index jit_data + scan_index;
          cyclic_push_index =
            (if zeroth_frame jit_data then push_index - scan_max_index jit_data else push_index)
      in bind_err (py_mod cyclic_push_index (int (length (dia_mz_cycle jit_data)))) (\<lambda>scan_in_dia_mz_cycle.
         bind_err (push_group_loop jit_data cycle_mask push_index scan_in_dia_mz_cycle
                     [0..<length cycle_mask] acc) (\<lambda>acc.
         push_scan_loop jit_data cycle_mask frame_index rest acc)))"

fun push_frame_loop ::
  "TimsTOFJIT \<Rightarrow> bool list list \<Rightarrow> slice \<Rightarrow> int list \<Rightarrow> int list \<times> int list \<Rightarrow>
   py_error + int list \<times> int list" where
  "push_frame_loop jit_data cycle_mask scans [] acc = Inr acc"
| "push_frame_loop jit_data cycle_mask (scan_start, scan_stop, scan_step) (frame_index # rest) acc =
     bind_err (py_range (uint scan_start) (uint scan_stop) (uint scan_step)) (\<lambda>scan_indices.
     bind_err (push_scan_loop jit_data cycle_mask frame_index scan_indices acc) (\<lambda>acc.
     push_frame_loop jit_data cycle_mask (scan_start, scan_stop, scan_step) rest acc))"

definition get_push_indices ::
  "TimsTOFJIT \<Rightarrow> slice list \<Rightarrow> slice list \<Rightarrow> bool list list \<Rightarrow> py_error + int list \<times> int list" where
  "get_push_indices jit_data frames scans cycle_mask =
     bind_err (list_get frames 0) (\<lambda>(frame_start, frame_stop, frame_step).
     bind_err (list_get scans 0) (\<lambda>scan_slice.
     bind_err (py_range (uint frame_start) (uint frame_stop) (uint frame_step)) (\<lambda>frame_indices.
     push_frame_loop jit_data cycle_mask scan_slice frame_indices ([], []))))"

subsection \<open>Assembling the dense window\<close>

text \<open>
  \<^verbatim>\<open>np.unique\<close> gives the distinct values in ascending order. The reverse lookup
  \<^verbatim>\<open>precursor_index_reverse[unique_precursor_index] = np.arange(...)\<close> stores at each
  distinct value its rank.
\<close>

definition np_unique :: "int list \<Rightarrow> int list" where
  "np_unique xs = sort (remdups xs)"

fun scatter_ranks :: "(nat \<times> int) list \<Rightarrow> nat list \<Rightarrow> py_error + nat list" where
  "scatter_ranks [] reverse = Inr reverse"
| "scatter_ranks ((rank, v) # rest) reverse =
     bind_err (axis_index (length reverse) v) (\<lambda>p. scatter_ranks rest (reverse[p := rank]))"

fun gather_checked :: "'a list \<Rightarrow> int list \<Rightarrow> py_error + 'a list" where
  "gather_checked xs [] = Inr []"
| "gather_checked xs (i # rest) =
     bind_err (list_get xs i) (\<lambda>x. bind_err (gather_checked xs rest) (\<lambda>ys. Inr (x # ys)))"

definition relative_precursor_indices :: "int list \<Rightarrow> py_error + nat list" where
  "relative_precursor_indices precursor_index =
     (let unique_precursor_index = np_unique precursor_index
      in bind_err (np_zeros [Max (set unique_precursor_index) + 1]) (\<lambda>zeros.
         bind_err (scatter_ranks (enumerate 0 unique_precursor_index)
                     (replicate (hd (shape zeros)) 0)) (\<lambda>precursor_index_reverse.
         gather_checked precursor_index_reverse precursor_index)))"

text \<open>
  The body of the inner loop at a sparse entry \<open>idx\<close> that matches query position \<open>i\<close>:
  the cell is found from the push index, and intensity and weighted error are updated.
\<close>

definition accumulate_hit ::
  "TimsTOFJIT \<Rightarrow> int list \<Rightarrow> nat list \<Rightarrow> nat \<Rightarrow> real \<Rightarrow> real \<Rightarrow> int \<Rightarrow> int \<Rightarrow>
   int \<Rightarrow> nat \<Rightarrow> ndarray \<Rightarrow> py_error + ndarray" where
  "accumulate_hit jit_data push_index relative_precursor_index j library_mz_value
     measured_mz_value mobility_start precursor_cycle_start idx i dense_output =
     bind_err (list_get push_index idx) (\<lambda>push.
     bind_err (py_floordiv push (scan_max_index jit_data)) (\<lambda>frame_index.
     bind_err (py_mod push (scan_max_index jit_data)) (\<lambda>scan_index.
     bind_err (py_floordiv (frame_index - of_bool (zeroth_frame jit_data))
                 (int (cycle_frames jit_data))) (\<lambda>precursor_cycle_index.
     let relative_scan = scan_index - mobility_start;
         relative_precursor = precursor_cycle_index - precursor_cycle_start
     in bind_err (list_get relative_precursor_index (int i)) (\<lambda>observation.
        bind_err (getitem dense_output
                    [0, int j, int observation, relative_scan, relative_precursor]) (\<lambda>accumulated_intensity.
        bind_err (getitem dense_output
                    [1, int j, int observation, relative_scan, relative_precursor]) (\<lambda>accumulated_error.
        bind_err (list_get (intensity_values_t jit_data) idx) (\<lambda>new_intensity.
        bind_err (py_truediv (measured_mz_value - library_mz_value) library_mz_value) (\<lambda>ratio.
        let new_error = ratio * 10 ^ 6
        in bind_err (py_truediv (accumulated_error * accumulated_intensity + new_error * new_intensity)
                       (accumulated_intensity + new_intensity)) (\<lambda>weighted_error.
           bind_err (setitem dense_output
                       [0, int j, int observation, relative_scan, relative_precursor]
                       (accumulated_intensity + new_intensity)) (\<lambda>dense_output.
           setitem dense_output
             [1, int j, int observation, relative_scan, relative_precursor] weighted_error)))))))))))"

text \<open>
  The loop \<^verbatim>\<open>while (idx < stop) and (i < len(push_query))\<close>: a merge of the pushes of
  one tof index with the queried pushes.
\<close>

function push_loop ::
  "int list \<Rightarrow> int list \<Rightarrow> int \<Rightarrow> (int \<Rightarrow> nat \<Rightarrow> ndarray \<Rightarrow> py_error + ndarray) \<Rightarrow>
   int \<Rightarrow> nat \<Rightarrow> ndarray \<Rightarrow> py_error + ndarray" where
  "push_loop push_index push_query stop body idx i dense_output =
     (if idx < stop \<and> i < length push_query
      then (case list_get push_index idx of
              Inl e \<Rightarrow> Inl e
            | Inr push \<Rightarrow>
                if push_query ! i < push
                then push_loop push_index push_query stop body idx (i + 1) dense_output
                else (case (if push_query ! i = push then body idx i dense_output
                            else Inr dense_output) of
                        Inl e \<Rightarrow> Inl e
                      | Inr dense_output \<Rightarrow>
                          push_loop push_index push_query stop body (idx + 1) i dense_output))
      else Inr dense_output)"
  by pat_completeness auto
termination
  by (relation "measure (\<lambda>(push_index, push_query, stop, body, idx, i, dense_output).
        nat (stop - idx) + (length push_query - i))") auto

text \<open>The loop over the tof indices of one ion, and the loop over the ions.\<close>

fun tof_loop ::
  "TimsTOFJIT \<Rightarrow> int list \<Rightarrow> int list \<Rightarrow> int list \<Rightarrow> nat list \<Rightarrow> nat \<Rightarrow> real \<Rightarrow> int \<Rightarrow> int \<Rightarrow>
   int list \<Rightarrow> ndarray \<Rightarrow> py_error + ndarray" where
  "tof_loop jit_data push_index indptr push_query relative_precursor_index j library_mz_value
     mobility_start precursor_cycle_start [] dense_output = Inr dense_output"
| "tof_loop jit_data push_index indptr push_query relative_precursor_index j library_mz_value
     mobility_start precursor_cycle_start (tof_index # rest) dense_output =
     bind_err (list_get (mz_values jit_data) tof_index) (\<lambda>measured_mz_value.
     bind_err (list_get indptr tof_index) (\<lambda>start.
     bind_err (list_get indptr (tof_index + 1)) (\<lambda>stop.
     bind_err (push_loop push_index push_query stop
                 (accumulate_hit jit_data push_index relative_precursor_index j library_mz_value
                    measured_mz_value mobility_start precursor_cycle_start)
                 start 0 dense_output) (\<lambda>dense_output.
     tof_loop jit_data push_index indptr push_query relative_precursor_index j library_mz_value
       mobility_start precursor_cycle_start rest dense_output))))"

fun ion_loop ::
  "TimsTOFJIT \<Rightarrow> real list \<Rightarrow> int list \<Rightarrow> int list \<Rightarrow> int list \<Rightarrow> nat list \<Rightarrow> int \<Rightarrow> int \<Rightarrow>
   (nat \<times> slice) list \<Rightarrow> ndarray \<Rightarrow> py_error + ndarray" where
  "ion_loop jit_data library_mz push_index indptr push_query relative_precursor_index
     mobility_start precursor_cycle_start [] dense_output = Inr dense_output"
| "ion_loop jit_data library_mz push_index indptr push_query relative_precursor_index
     mobility_start precursor_cycle_start ((j, (tof_start, tof_stop, tof_step)) # rest) dense_output =
     bind_err (list_get library_mz (int j)) (\<lambda>library_mz_value.
     bind_err (py_range (uint tof_start) (uint tof_stop) (uint tof_step)) (\<lambda>tof_indices.
     bind_err (tof_loop jit_data push_index indptr push_query relative_precursor_index j
                 library_mz_value mobility_start precursor_cycle_start tof_indices dense_output)
       (\<lambda>dense_output.
     ion_loop jit_data library_mz push_index indptr push_query relative_precursor_index
       mobility_start precursor_cycle_start rest dense_output)))"

definition fill_channel :: "ndarray \<Rightarrow> nat \<Rightarrow> real \<Rightarrow> ndarray" where
  "fill_channel a c v = a\<lparr>item := (\<lambda>p. if p \<noteq> [] \<and> hd p = c then v else item a p)\<rparr>"

definition assemble_push ::
  "slice list \<Rightarrow> real list \<Rightarrow> int list \<Rightarrow> int list \<Rightarrow> int list \<Rightarrow> int list \<Rightarrow>
   slice list \<Rightarrow> slice list \<Rightarrow> real \<Rightarrow> TimsTOFJIT \<Rightarrow> py_error + ndarray" where
  "assemble_push tof_slices library_mz push_index indptr push_query precursor_index
     frames scans ppm_background jit_data =
     (if length precursor_index = 0 then Inr \<lparr>shape = [0, 0, 0, 0, 0], item = (\<lambda>_. 0)\<rparr>
      else
        let unique_precursor_index = np_unique precursor_index
        in bind_err (relative_precursor_indices precursor_index) (\<lambda>relative_precursor_index.
           let n_precursor_indices = length unique_precursor_index;
               n_tof_slices = length tof_slices
           in bind_err (list_get scans 0) (\<lambda>(scan_start, scan_stop, scan_step).
              bind_err (list_get frames 0) (\<lambda>(frame_start, frame_stop, frame_step).
              let mobility_start = uint scan_start;
                  mobility_stop = uint scan_stop;
                  mobility_len = mobility_stop - mobility_start
              in bind_err (py_floordiv (uint frame_start - of_bool (zeroth_frame jit_data))
                             (int (cycle_frames jit_data))) (\<lambda>precursor_cycle_start.
                 bind_err (py_floordiv (uint frame_stop - of_bool (zeroth_frame jit_data))
                             (int (cycle_frames jit_data))) (\<lambda>precursor_cycle_stop.
                 let precursor_cycle_len = precursor_cycle_stop - precursor_cycle_start
                 in bind_err (np_zeros [2, int n_tof_slices, int n_precursor_indices,
                                        mobility_len, precursor_cycle_len]) (\<lambda>dense_output.
                    ion_loop jit_data library_mz push_index indptr push_query
                      relative_precursor_index mobility_start precursor_cycle_start
                      (enumerate 0 tof_slices) (fill_channel dense_output 1 ppm_background))))))))"

subsection \<open>The sparse hits of a cell\<close>
















subsection \<open>Processing a hybrid score group\<close>

text \<open>
  The modules \<^verbatim>\<open>utils\<close>, \<^verbatim>\<open>fragments\<close> and \<^verbatim>\<open>numeric\<close> are imported by
  \<^verbatim>\<open>hybridselection.py\<close> and are not among the sources. Their functions are the fields
  of the record below; the optional \<^verbatim>\<open>max_cardinality\<close> of \<^verbatim>\<open>get_ion_group_mapping\<close>
  is \<open>None\<close> where the call leaves it to the default.
\<close>

record Library =
  container_slice :: "FragmentContainer \<Rightarrow> slice list \<Rightarrow> FragmentContainer"
  container_sort_by_mz :: "FragmentContainer \<Rightarrow> FragmentContainer"
  mass_range :: "real list \<Rightarrow> real \<Rightarrow> (real \<times> real) list"
  get_ion_group_mapping ::
    "nat list \<Rightarrow> real list \<Rightarrow> real list \<Rightarrow> 8 word list \<Rightarrow> real list \<Rightarrow> nat \<Rightarrow> nat option \<Rightarrow>
     real list \<times> real list"
  fourier_a0 :: "ndarray \<Rightarrow> ndarray \<Rightarrow> ndarray"

definition mask_assign :: "real list \<Rightarrow> bool list \<Rightarrow> real \<Rightarrow> py_error + real list" where
  "mask_assign xs keep v =
     (if length keep \<noteq> length xs then Inl IndexError
      else Inr (map (\<lambda>(x, k). if k then v else x) (zip xs keep)))"

text \<open>
  \<^verbatim>\<open>trim_isotopes\<close> keeps the isotope columns whose mean over the precursors exceeds
  0.1; \<^verbatim>\<open>assemble_isotope_mz\<close> adds the isotope offsets to each precursor m/z.
\<close>

definition trim_isotopes :: "HybridElutionGroup \<Rightarrow> HybridElutionGroup" where
  "trim_isotopes self =
     (let isotopes = precursor_isotope_intensity self;
          n_isotopes = (case isotopes of [] \<Rightarrow> 0 | row # _ \<Rightarrow> length row);
          elution_group_isotopes =
            map (\<lambda>k. sum_list (map (\<lambda>row. row ! k) isotopes) / real (length isotopes))
              [0..<n_isotopes];
          keep = map (\<lambda>m. m > 1 / 10) elution_group_isotopes
      in self\<lparr>precursor_isotope_intensity :=
           map (\<lambda>row. map fst (filter snd (zip row keep))) isotopes\<rparr>)"

definition assemble_isotope_mz :: "HybridElutionGroup \<Rightarrow> HybridElutionGroup" where
  "assemble_isotope_mz self =
     (let isotopes = precursor_isotope_intensity self;
          n_isotopes = (case isotopes of [] \<Rightarrow> 0 | row # _ \<Rightarrow> length row);
          offset = map (\<lambda>k. real k * (10033548350700006 / 10 ^ 16) / real (unat (charge self)))
                     [0..<n_isotopes]
      in self\<lparr>precursor_isotope_mz := map (\<lambda>m. map (\<lambda>off. m + off) offset) (precursor_mz self)\<rparr>)"

definition determine_precursor_tof_limits ::
  "Library \<Rightarrow> TimsTOFJIT \<Rightarrow> real \<Rightarrow> HybridElutionGroup \<Rightarrow> HybridElutionGroup" where
  "determine_precursor_tof_limits lib jit_data tolerance self =
     (let precursor_mz_limits = mass_range lib (precursor_mz self) tolerance
      in self\<lparr>precursor_tof_limits := make_slice_2d (return_tof_indices jit_data precursor_mz_limits)\<rparr>)"

definition determine_fragment_tof_limits ::
  "Library \<Rightarrow> TimsTOFJIT \<Rightarrow> real \<Rightarrow> HybridElutionGroup \<Rightarrow> HybridElutionGroup" where
  "determine_fragment_tof_limits lib jit_data tolerance self =
     (let fragment_mz_limits = mass_range lib (fragment_mz (fragments self)) tolerance
      in self\<lparr>fragment_tof_limits := make_slice_2d (return_tof_indices jit_data fragment_mz_limits)\<rparr>)"

text \<open>
  \<^verbatim>\<open>build_candidates\<close>: the two smoothed stacks are computed and not used, and the only
  \<^verbatim>\<open>append\<close> stands under \<^verbatim>\<open>if 1 > 2\<close>.
\<close>

definition build_candidates ::
  "Library \<Rightarrow> ndarray \<Rightarrow> ndarray \<Rightarrow> ndarray \<Rightarrow> nat \<Rightarrow> TimsTOFJIT \<Rightarrow> py_error + Candidate list" where
  "build_candidates lib dense_frag dense_prec kernel_matrix candidate_count jit_data =
     (let found = []
      in bind_err (list_get (shape dense_frag) 2) (\<lambda>frag_2.
         bind_err (list_get (shape kernel_matrix) 0) (\<lambda>kernel_0.
         bind_err (if frag_2 < kernel_0 then Inr True
                   else bind_err (list_get (shape dense_frag) 3) (\<lambda>frag_3.
                        bind_err (list_get (shape kernel_matrix) 1) (\<lambda>kernel_1.
                        Inr (frag_3 < kernel_1)))) (\<lambda>too_small.
         if too_small then Inr found
         else let smooth_precursor = fourier_a0 lib dense_prec kernel_matrix;
                  smooth_fragment = fourier_a0 lib dense_frag kernel_matrix
              in Inr (if (1::nat) > 2 then found @ [\<lparr>id = 1\<rparr>] else found)))))"

text \<open>\<^verbatim>\<open>.sum(axis=2)\<close> of an array with at least three axes.\<close>

definition sum_axis2 :: "ndarray \<Rightarrow> py_error + ndarray" where
  "sum_axis2 a =
     (if length (shape a) < 3 then Inl ValueError
      else Inr \<lparr>shape = take 2 (shape a) @ drop 3 (shape a),
                item = (\<lambda>p. sum_list (map (\<lambda>k. item a (take 2 p @ [k] @ drop 2 p))
                                        [0..<shape a ! 2]))\<rparr>)"

text \<open>
  \<^verbatim>\<open>HybridElutionGroup.process\<close>, first part: the abundance vector, the sort, the
  isotopes, the fragments of the group and the limits.
\<close>

definition process_prepare ::
  "Library \<Rightarrow> TimsTOFJIT \<Rightarrow> FragmentContainer \<Rightarrow> real \<Rightarrow> real \<Rightarrow> real \<Rightarrow>
   HybridElutionGroup \<Rightarrow> py_error + HybridElutionGroup" where
  "process_prepare lib jit_data fragment_container rt_tolerance mobility_tolerance mz_tolerance self =
     bind_err (mask_assign (replicate (length (precursor_decoy self)) 1)
                 (map (\<lambda>c. c = 0) (precursor_channel self)) 10) (\<lambda>abundance.
     let self = self\<lparr>precursor_abundance := abundance\<rparr>;
         self = sort_by_mz self;
         self = trim_isotopes self;
         self = assemble_isotope_mz self;
         fragment_idx_slices =
           make_slice_2d (map (\<lambda>r. (uint (fst r), uint (snd r))) (precursor_frag_start_stop_idx self));
         self = self\<lparr>fragments := container_slice lib fragment_container fragment_idx_slices\<rparr>;
         self = self\<lparr>fragments := container_sort_by_mz lib (fragments self)\<rparr>;
         self = determine_frame_limits jit_data rt_tolerance self;
         self = determine_scan_limits jit_data mobility_tolerance self;
         self = determine_precursor_tof_limits lib jit_data mz_tolerance self;
         self = determine_fragment_tof_limits lib jit_data mz_tolerance self
     in Inr self)"

text \<open>The two calls of \<^verbatim>\<open>fragments.get_ion_group_mapping\<close>.\<close>

definition fragment_ion_group :: "Library \<Rightarrow> nat \<Rightarrow> HybridElutionGroup \<Rightarrow> real list \<times> real list" where
  "fragment_ion_group lib top_k_fragments self =
     get_ion_group_mapping lib
       (fragment_precursor_idx (fragments self))
       (fragment_mz (fragments self))
       (fragment_intensity (fragments self))
       (fragment_cardinality (fragments self))
       (precursor_abundance self)
       top_k_fragments (Some 10)"

definition precursor_ion_group :: "Library \<Rightarrow> nat \<Rightarrow> HybridElutionGroup \<Rightarrow> real list \<times> real list" where
  "precursor_ion_group lib top_k_precursors self =
     (let isotope_mz = concat (precursor_isotope_mz self);
          isotope_intensity = concat (precursor_isotope_intensity self);
          n_isotopes = (case precursor_isotope_mz self of [] \<Rightarrow> 0 | row # _ \<Rightarrow> length row);
          isotope_precursor =
            concat (map (\<lambda>p. replicate n_isotopes p) [0..<length (precursor_isotope_mz self)]);
          order = argsort isotope_mz;
          isotope_mz = gather isotope_mz order;
          isotope_intensity = gather isotope_intensity order;
          isotope_precursor = gather isotope_precursor order
      in get_ion_group_mapping lib isotope_precursor isotope_mz isotope_intensity
           (replicate (length isotope_mz) 1) (precursor_abundance self) top_k_precursors None)"

text \<open>
  The part of \<^verbatim>\<open>process\<close> after the quadrupole limits: tof limits, cycle masks, the two
  dense windows, and the \<^verbatim>\<open>return\<close> that follows the two assignments. The call of
  \<^verbatim>\<open>build_candidates\<close> and everything below it stand after this \<^verbatim>\<open>return\<close>.
\<close>

definition extract_dense_windows ::
  "Library \<Rightarrow> TimsTOFJIT \<Rightarrow> real \<Rightarrow> real list \<Rightarrow> real list \<Rightarrow> real list list \<Rightarrow>
   HybridElutionGroup \<Rightarrow> py_error + HybridElutionGroup" where
  "extract_dense_windows lib jit_data mz_tolerance precursor_mzs fragment_mzs quadrupole_mz self =
     (let precursor_tof = make_slice_2d (return_tof_indices jit_data (mass_range lib precursor_mzs mz_tolerance));
          fragment_tof = make_slice_2d (return_tof_indices jit_data (mass_range lib fragment_mzs mz_tolerance));
          precursor_cycle_mask = calculate_dia_cycle_mask (cycle jit_data) [(-1, -1)]
      in bind_err (if \<forall>row \<in> set quadrupole_mz. length row = 2
                   then Inr (map (\<lambda>row. (row ! 0, row ! 1)) quadrupole_mz)
                   else Inl ValueError) (\<lambda>quad_slices.
         let fragment_cycle_mask = calculate_dia_cycle_mask (cycle jit_data) quad_slices
         in bind_err (get_push_indices jit_data (frame_limits self) (scan_limits self)
                        precursor_cycle_mask) (\<lambda>(push_query, absolute_precursor_index).
            bind_err (assemble_push precursor_tof precursor_mzs (push_indices jit_data)
                        (tof_indptr jit_data) push_query absolute_precursor_index
                        (frame_limits self) (scan_limits self) mz_tolerance jit_data) (\<lambda>dense.
            bind_err (sum_axis2 dense) (\<lambda>dense_prec.
            bind_err (get_push_indices jit_data (frame_limits self) (scan_limits self)
                        fragment_cycle_mask) (\<lambda>(push_query, absolute_precursor_index).
            bind_err (assemble_push fragment_tof fragment_mzs (push_indices jit_data)
                        (tof_indptr jit_data) push_query absolute_precursor_index
                        (frame_limits self) (scan_limits self) mz_tolerance jit_data) (\<lambda>dense.
            bind_err (sum_axis2 dense) (\<lambda>dense_frag.
            Inr (self\<lparr>dense_fragments := dense_frag, dense_precursors := dense_prec\<rparr>)))))))))"

definition process ::
  "Library \<Rightarrow> TimsTOFJIT \<Rightarrow> FragmentContainer \<Rightarrow> ndarray \<Rightarrow> real \<Rightarrow> real \<Rightarrow> real \<Rightarrow> nat \<Rightarrow> bool \<Rightarrow>
   bool \<Rightarrow> nat \<Rightarrow> nat \<Rightarrow> HybridElutionGroup \<Rightarrow> py_error + HybridElutionGroup" where
  "process lib jit_data fragment_container kernel_matrix rt_tolerance mobility_tolerance mz_tolerance
     candidate_count debug exclude_shared_fragments top_k_fragments top_k_precursors self =
     bind_err (process_prepare lib jit_data fragment_container rt_tolerance mobility_tolerance
                 mz_tolerance self) (\<lambda>self.
     case fragment_ion_group lib top_k_fragments self of (fragment_mzs, fragment_intensities) \<Rightarrow>
       if length fragment_mzs = 0 then Inr self
       else
         let self = self\<lparr>score_group_fragment_mz := fragment_mzs,
                         score_group_fragment_intensity := fragment_intensities\<rparr>
         in case precursor_ion_group lib top_k_precursors self of (precursor_mzs, precursor_intensities) \<Rightarrow>
              if length precursor_mzs = 0 then Inr self
              else
                let self = self\<lparr>score_group_precursor_mz := precursor_mzs,
                                score_group_precursor_intensity := precursor_intensities\<rparr>
                in bind_err (calculate_score_group_limits precursor_mzs precursor_intensities)
                     (\<lambda>quadrupole_mz.
                        extract_dense_windows lib jit_data mz_tolerance precursor_mzs fragment_mzs
                          quadrupole_mz self))"

text \<open>
  \<^verbatim>\<open>HybridCandidateSelection.__call__\<close>: the score groups are assembled (\<open>None\<close> for an
  empty precursor table), the first \<open>iterator_len\<close> of them are processed, and the
  container of groups is returned. The groups are processed independently; the model
  processes them in order.
\<close>

record HybridCandidateSelection =
  dia_data :: TimsTOFJIT
  selection_kernel :: ndarray
  rt_tolerance :: real
  mobility_tolerance :: real
  mz_tolerance :: real
  candidate_count :: nat
  thread_count :: nat
  debug :: bool
  group_channels :: bool
  exclude_shared_fragments :: bool
  top_k_fragments :: nat
  top_k_precursors :: nat



subsection \<open>Fourier smoothing\<close>

text \<open>
  NumPy's transforms as its documentation defines them, in exact arithmetic; the arrays
  of the code hold floating-point roundings of these values. \<open>twiddle n m\<close> is the root of
  unity \<open>exp (2 \<pi> i m / n)\<close>. \<^verbatim>\<open>rfft2\<close> transforms the last axis and then the first;
  of its output the columns \<open>0, ..., C div 2\<close> are kept. \<^verbatim>\<open>irfft2\<close> inverts the first
  axis and then the last, where it rebuilds a real sequence of length \<open>2 (m - 1)\<close> from
  \<open>m\<close> coefficients and reads only the real parts of the first and the last of them.
\<close>

definition twiddle :: "nat \<Rightarrow> int \<Rightarrow> complex" where
  "twiddle n m = cis (2 * pi * real_of_int m / real n)"

definition dft :: "nat \<Rightarrow> (nat \<Rightarrow> complex) \<Rightarrow> nat \<Rightarrow> complex" where
  "dft n x u = (\<Sum>s<n. x s * twiddle n (- int (u * s)))"

definition idft :: "nat \<Rightarrow> (nat \<Rightarrow> complex) \<Rightarrow> nat \<Rightarrow> complex" where
  "idft n X s = (\<Sum>u<n. X u * twiddle n (int (u * s))) / of_nat n"

definition irfft :: "nat \<Rightarrow> (nat \<Rightarrow> complex) \<Rightarrow> nat \<Rightarrow> real" where
  "irfft m R c =
     (let n = 2 * (m - 1)
      in (Re (R 0) + (\<Sum>v = 1..<m - 1. 2 * Re (R v * twiddle n (int (v * c))))
          + Re (R (m - 1)) * Re (twiddle n (int ((m - 1) * c)))) / real n)"

definition rfft2 :: "nat \<Rightarrow> nat \<Rightarrow> (nat \<Rightarrow> nat \<Rightarrow> real) \<Rightarrow> nat \<Rightarrow> nat \<Rightarrow> complex" where
  "rfft2 n_scans n_cycles a u v =
     dft n_scans (\<lambda>s. dft n_cycles (\<lambda>c. of_real (a s c)) v) u"

definition irfft2 :: "nat \<Rightarrow> nat \<Rightarrow> (nat \<Rightarrow> nat \<Rightarrow> complex) \<Rightarrow> nat \<Rightarrow> nat \<Rightarrow> real" where
  "irfft2 n_scans m X s c = irfft m (\<lambda>v. idft n_scans (\<lambda>u. X u v) s) c"

text \<open>
  \<^verbatim>\<open>np.fft.rfft2(kernel, shape)\<close> crops the kernel to the shape or pads it with zeros;
  \<^verbatim>\<open>np.roll(a, shift, axis)\<close> moves the entry at position \<open>i\<close> to \<open>(i + shift) mod n\<close>.
\<close>

definition fit_kernel :: "ndarray \<Rightarrow> nat \<Rightarrow> nat \<Rightarrow> nat \<Rightarrow> nat \<Rightarrow> real" where
  "fit_kernel kernel_matrix k0 k1 s c = (if s < k0 \<and> c < k1 then item kernel_matrix [s, c] else 0)"

definition roll_index :: "nat \<Rightarrow> int \<Rightarrow> nat \<Rightarrow> nat" where
  "roll_index n shift i = nat ((int i - shift) mod int n)"

text \<open>
  \<^verbatim>\<open>fourier_filter\<close>. The shifts are written \<^verbatim>\<open>-k0//2\<close> and \<^verbatim>\<open>-k1//2\<close>, which Python
  reads as \<open>(- k0) div 2\<close> and \<open>(- k1) div 2\<close>. A transform of length 0 raises ValueError.
\<close>

definition fourier_filter :: "ndarray \<Rightarrow> ndarray \<Rightarrow> py_error + ndarray" where
  "fourier_filter dense_stack kernel_matrix =
     bind_err (list_get (shape kernel_matrix) 0) (\<lambda>k0.
     bind_err (list_get (shape kernel_matrix) 1) (\<lambda>k1.
     bind_err (list_get (shape dense_stack) 3) (\<lambda>n_scans.
     bind_err (list_get (shape dense_stack) 4) (\<lambda>n_cycles.
     let scan_mod = n_scans mod 2;
         frame_mod = n_cycles mod 2;
         scan_size = n_scans - scan_mod;
         frame_size = n_cycles - frame_mod
     in bind_err (list_get (shape dense_stack) 1) (\<lambda>n_precursors.
        bind_err (list_get (shape dense_stack) 2) (\<lambda>n_observations.
        if scan_size = 0 \<or> frame_size = 0 then Inl ValueError
        else
          let fourier_kernel = rfft2 scan_size frame_size (fit_kernel kernel_matrix k0 k1);
              smooth = (\<lambda>i j. irfft2 scan_size (frame_size div 2 + 1)
                          (\<lambda>u v. rfft2 scan_size frame_size
                                    (\<lambda>s c. item dense_stack [0, i, j, s, c]) u v
                                  * fourier_kernel u v));
              rolled = (\<lambda>i j s c. smooth i j (roll_index scan_size ((- int k0) div 2) s) c);
              rolled = (\<lambda>i j s c. rolled i j s (roll_index frame_size ((- int k1) div 2) c))
          in Inr \<lparr>shape = [n_precursors, n_observations, scan_size, frame_size],
                  item = (\<lambda>p. case p of [i, j, s, c] \<Rightarrow> rolled i j s c | _ \<Rightarrow> 0)\<rparr>))))))"

text \<open>
  The circular convolution of two arrays of the same shape, and the smoothing as the
  specification states it: the convolution with the fitted kernel, shifted by
  \<open>- (k0 div 2)\<close> and \<open>- (k1 div 2)\<close>.
\<close>

definition circular_convolution ::
  "nat \<Rightarrow> nat \<Rightarrow> (nat \<Rightarrow> nat \<Rightarrow> real) \<Rightarrow> (nat \<Rightarrow> nat \<Rightarrow> real) \<Rightarrow> nat \<Rightarrow> nat \<Rightarrow> real" where
  "circular_convolution n_scans n_cycles a k s c =
     (\<Sum>s1<n_scans. \<Sum>c1<n_cycles.
        a s1 c1 * k (nat ((int s - int s1) mod int n_scans)) (nat ((int c - int c1) mod int n_cycles)))"

definition shifted_convolution ::
  "ndarray \<Rightarrow> ndarray \<Rightarrow> int \<Rightarrow> int \<Rightarrow> nat \<Rightarrow> nat \<Rightarrow> nat \<Rightarrow> nat \<Rightarrow> real" where
  "shifted_convolution dense_stack kernel_matrix shift0 shift1 i j s c =
     (let n_scans = shape dense_stack ! 3 - shape dense_stack ! 3 mod 2;
          n_cycles = shape dense_stack ! 4 - shape dense_stack ! 4 mod 2
      in circular_convolution n_scans n_cycles
           (\<lambda>s c. item dense_stack [0, i, j, s, c])
           (fit_kernel kernel_matrix (shape kernel_matrix ! 0) (shape kernel_matrix ! 1))
           (roll_index n_scans shift0 s) (roll_index n_cycles shift1 c))"

subsection \<open>The smoothing kernel\<close>

text \<open>
  \<^verbatim>\<open>np.arange(-size//2, size//2)\<close> lists the integers from \<open>(- size) div 2\<close> up to,
  not including, \<open>size div 2\<close>.
\<close>

definition kernel_axis :: "nat \<Rightarrow> int list" where
  "kernel_axis n =
     map (\<lambda>k. (- int n) div 2 + int k) [0..<nat (int n div 2 - (- int n) div 2)]"

definition multivariate_normal :: "(real \<times> real) list \<Rightarrow> real \<times> real \<Rightarrow> real list list \<Rightarrow> real list" where
  \<comment> \<open>Modelled from the spec: \<^verbatim>\<open>utils.multivariate_normal\<close> is not among the sources. The
      specification asks for samples of a 2-D Gaussian with the given mean and covariance;
      this is the density of the normal distribution with mean \<open>mu\<close> and 2 by 2 covariance
      \<open>sigma\<close> at each point.\<close>
  "multivariate_normal points mu sigma =
     (let a = sigma ! 0 ! 0; b = sigma ! 0 ! 1; c = sigma ! 1 ! 0; d = sigma ! 1 ! 1;
          det = a * d - b * c
      in map (\<lambda>(x, y).
                let dx = x - fst mu; dy = y - snd mu
                in exp (- ((d * dx * dx - (b + c) * dx * dy + a * dy * dy) / det) / 2)
                   / (2 * pi * sqrt det))
           points)"

text \<open>
  \<^verbatim>\<open>gaussian_kernel_2d\<close>: the grid of \<^verbatim>\<open>np.meshgrid\<close> has the x values along each row
  and the y values down each column; the weights of the flattened grid are cut into rows
  of \<open>n\<close> entries again, \<open>n\<close> being the size.
\<close>

definition gaussian_kernel_2d :: "nat \<Rightarrow> real \<Rightarrow> real \<Rightarrow> real list list" where
  "gaussian_kernel_2d n sigma_x sigma_y =
     (let axis = kernel_axis n;
          xy = concat (map (\<lambda>y. map (\<lambda>x. (real_of_int x, real_of_int y)) axis) axis);
          mu = (0, 0);
          sigma_mat = [[sigma_x, 0], [0, sigma_y]];
          weights = multivariate_normal xy mu sigma_mat
      in map (\<lambda>r. take n (drop (r * n) weights)) [0..<n])"

text \<open>
  The kernel of \<^verbatim>\<open>MS1CentricCandidateSelection.__init__\<close> with the default arguments
  \<^verbatim>\<open>kernel_sigma_rt = 5\<close> and \<^verbatim>\<open>kernel_sigma_mobility = 12\<close>; the size 20 is fixed there.
\<close>

definition default_kernel :: "real list list" where
  "default_kernel = gaussian_kernel_2d 20 5 12"

text \<open>
  The density of the zero-mean normal distribution with covariance
  \<open>diag(sigma_x, sigma_y)\<close>, as the specification words the entries of the kernel; it is
  compared below with what \<^verbatim>\<open>gaussian_kernel_2d\<close> computes.
\<close>

definition gaussian_density :: "real \<Rightarrow> real \<Rightarrow> real \<Rightarrow> real \<Rightarrow> real" where
  "gaussian_density sigma_x sigma_y x y =
     exp (- (x * x / sigma_x + y * y / sigma_y) / 2) / (2 * pi * sqrt (sigma_x * sigma_y))"

text \<open>
  The sum of \<open>t\<close> to the squares of the 20 coordinates of one axis of the default kernel.
\<close>

definition axis_sum :: "real \<Rightarrow> real" where
  "axis_sum t = sum_list (map (\<lambda>x. t ^ nat (x * x)) (kernel_axis 20))"

subsection \<open>Concrete inputs\<close>

text \<open>
  A group of two precursors given in descending m/z order, precursor 7 on channel 0 and
  precursor 8 on channel 4, and a raw-data object whose frame conversion answers frames
  0 to 11 and whose scan conversion answers scans 2 to 4. Its cycle has an MS1 frame and
  an MS2 frame of four scans each; its sparse entries, listed by tof index, are pushes
  2 and 10 at tof index 0, push 2 at tof index 1, and pushes 3 and 18 at tof index 3; tof
  index \<open>k\<close> stands for the m/z from \<open>499.9 + k / 10\<close> on. The library functions of the
  example keep all fragments, widen an m/z by the ppm tolerance, and keep the first
  \<open>top_k\<close> ions; the selection runs with the default parameters and a 20 by 20 kernel.
\<close>

definition empty_array :: ndarray where
  "empty_array = \<lparr>shape = [0], item = (\<lambda>_. 0)\<rparr>"

definition two_precursor_group :: HybridElutionGroup where
  "two_precursor_group =
     \<lparr>score_group_idx = 0, elution_group_idx = 0, rt = 120, mobility = 85 / 100, charge = 2,
      precursor_idx = [7, 8], precursor_channel = [0, 4], precursor_decoy = [0, 1],
      precursor_mz = [600, 500], precursor_abundance = [],
      precursor_frag_start_stop_idx = [(0, 3), (3, 5)],
      precursor_isotope_intensity = [[8 / 10, 2 / 10], [6 / 10, 4 / 10]],
      precursor_isotope_mz = [],
      frame_limits = [], scan_limits = [], precursor_tof_limits = [], fragment_tof_limits = [],
      fragments = \<lparr>fragment_precursor_idx = [], fragment_mz = [], fragment_intensity = [],
                   fragment_cardinality = []\<rparr>,
      candidates = [], dense_fragments = empty_array, dense_precursors = empty_array,
      score_group_fragment_mz = [], score_group_precursor_mz = [],
      score_group_precursor_intensity = [], score_group_fragment_intensity = []\<rparr>"

definition small_run :: TimsTOFJIT where
  "small_run =
     \<lparr>return_frame_indices = (\<lambda>rt_limits optimize. (0, 11)),
      return_scan_indices = (\<lambda>mobility_limits. (2, 4)),
      return_tof_indices =
        map (\<lambda>r. (max 0 (min 4 \<lfloor>(fst r - 4999 / 10) * 10\<rfloor>),
                  max 0 (min 4 (\<lfloor>(snd r - 4999 / 10) * 10\<rfloor> + 1)))),
      cycle = [[[(-1, -1), (-1, -1), (-1, -1), (-1, -1)], [(400, 500), (400, 500), (500, 600), (500, 600)]]],
      scan_max_index = 4,
      zeroth_frame = False,
      dia_mz_cycle = [(-1, -1), (-1, -1), (-1, -1), (-1, -1), (400, 500), (400, 500), (500, 600), (500, 600)],
      dia_precursor_cycle = [0, 0, 0, 0, 1, 1, 2, 2],
      push_indices = [2, 10, 2, 3, 18],
      tof_indptr = [0, 2, 3, 3, 5],
      mz_values = [49995 / 100, 50005 / 100, 50010 / 100, 50020 / 100],
      intensity_values_t = [10, 20, 30, 5, 7]\<rparr>"

definition example_library :: Library where
  "example_library =
     \<lparr>container_slice = (\<lambda>container slices. container),
      container_sort_by_mz = (\<lambda>container. container),
      mass_range = (\<lambda>mzs ppm. map (\<lambda>m. (m * (1 - ppm / 10 ^ 6), m * (1 + ppm / 10 ^ 6))) mzs),
      get_ion_group_mapping =
        (\<lambda>owner mzs intensities cardinality abundance top_k max_cardinality.
           (take top_k mzs, take top_k intensities)),
      fourier_a0 = (\<lambda>dense kernel_matrix. dense)\<rparr>"

definition example_fragments :: FragmentContainer where
  "example_fragments =
     \<lparr>fragment_precursor_idx = [0, 1], fragment_mz = [500, 5001 / 10],
      fragment_intensity = [1, 1 / 2], fragment_cardinality = [1, 1]\<rparr>"


text \<open>
  A dense stack of one precursor and one observation with 2 scans and 2 cycles, holding
  1, 2, 3, 4 in channel 0 and the ppm background 120 in channel 1, and the kernel of
  size 1 by 1 with the single weight 1.
\<close>

definition example_stack :: ndarray where
  "example_stack =
     \<lparr>shape = [2, 1, 1, 2, 2],
      item = (\<lambda>p. case p of
                     [channel, i, j, s, c] \<Rightarrow> if channel = 0 then real (1 + 2 * s + c) else 120
                   | _ \<Rightarrow> 0)\<rparr>"

definition unit_kernel :: ndarray where
  "unit_kernel = \<lparr>shape = [1, 1], item = (\<lambda>p. 1)\<rparr>"

section \<open>Properties\<close>

subsection \<open>Correctness of the cycle mask\<close>

lemma set_mask_length [simp]: "length (set_mask m j i) = length m"
  by (simp add: set_mask_def)

lemma set_mask_row_length [simp]: "length (set_mask m j i ! r) = length (m ! r)"
  by (cases "j < length m") (simp_all add: set_mask_def nth_list_update list_update_beyond)

lemma set_mask_nth:
  "r < length m \<Longrightarrow> c < length (m ! r) \<Longrightarrow>
   set_mask m j i ! r ! c = ((r = j \<and> c = i) \<or> m ! r ! c)"
  by (cases "r = j"; cases "c = i") (simp_all add: set_mask_def)

lemma mask_quad_loop_length [simp]:
  "length (mask_quad_loop i w qs m) = length m"
  by (induction i w qs m rule: mask_quad_loop.induct) simp_all

lemma mask_quad_loop_row_length [simp]:
  "length (mask_quad_loop i w qs m ! r) = length (m ! r)"
  by (induction i w qs m rule: mask_quad_loop.induct) simp_all

lemma mask_quad_loop_nth:
  "r < length m \<Longrightarrow> c < length (m ! r) \<Longrightarrow>
   mask_quad_loop i w (enumerate k quads) m ! r ! c =
     ((c = i \<and> k \<le> r \<and> r < k + length quads \<and>
       fst (quads ! (r - k)) \<le> snd w \<and> snd (quads ! (r - k)) \<ge> fst w) \<or> m ! r ! c)"
proof (induction quads arbitrary: k m)
  case Nil
  then show ?case by (cases w) auto
next
  case (Cons q quads)
  obtain ws we where w: "w = (ws, we)" by (cases w)
  obtain qs qe where q: "q = (qs, qe)" by (cases q)
  show ?case
  proof (cases "qs \<le> we \<and> qe \<ge> ws")
    case True
    have "mask_quad_loop i w (enumerate k (q # quads)) m ! r ! c =
          mask_quad_loop i w (enumerate (Suc k) quads) (set_mask m k i) ! r ! c"
      using True by (simp add: w q)
    also have "\<dots> = ((c = i \<and> Suc k \<le> r \<and> r < Suc k + length quads \<and>
       fst (quads ! (r - Suc k)) \<le> snd w \<and> snd (quads ! (r - Suc k)) \<ge> fst w) \<or> set_mask m k i ! r ! c)"
      using Cons.prems by (intro Cons.IH) simp_all
    finally show ?thesis
      using Cons.prems True by (auto simp: set_mask_nth w q nth_Cons')
  next
    case False
    have "mask_quad_loop i w (enumerate k (q # quads)) m ! r ! c =
          mask_quad_loop i w (enumerate (Suc k) quads) m ! r ! c"
      using False by (auto simp add: w q)
    also have "\<dots> = ((c = i \<and> Suc k \<le> r \<and> r < Suc k + length quads \<and>
       fst (quads ! (r - Suc k)) \<le> snd w \<and> snd (quads ! (r - Suc k)) \<ge> fst w) \<or> m ! r ! c)"
      using Cons.prems by (intro Cons.IH) simp_all
    finally show ?thesis
      using Cons.prems False by (auto simp: w q nth_Cons')
  qed
qed

lemma mask_cycle_loop_length [simp]:
  "length (mask_cycle_loop ws qs m) = length m"
  by (induction ws qs m rule: mask_cycle_loop.induct) simp_all

lemma mask_cycle_loop_row_length [simp]:
  "length (mask_cycle_loop ws qs m ! r) = length (m ! r)"
  by (induction ws qs m rule: mask_cycle_loop.induct) simp_all

lemma mask_cycle_loop_nth:
  "r < length m \<Longrightarrow> c < length (m ! r) \<Longrightarrow> r < length quads \<Longrightarrow>
   mask_cycle_loop (enumerate k ws) (enumerate 0 quads) m ! r ! c =
     ((k \<le> c \<and> c < k + length ws \<and>
       fst (quads ! r) \<le> snd (ws ! (c - k)) \<and> snd (quads ! r) \<ge> fst (ws ! (c - k))) \<or> m ! r ! c)"
proof (induction ws arbitrary: k m)
  case Nil
  then show ?case by auto
next
  case (Cons w ws)
  have "mask_cycle_loop (enumerate k (w # ws)) (enumerate 0 quads) m ! r ! c =
        mask_cycle_loop (enumerate (Suc k) ws) (enumerate 0 quads)
          (mask_quad_loop k w (enumerate 0 quads) m) ! r ! c"
    by simp
  also have "\<dots> = ((Suc k \<le> c \<and> c < Suc k + length ws \<and>
       fst (quads ! r) \<le> snd (ws ! (c - Suc k)) \<and> snd (quads ! r) \<ge> fst (ws ! (c - Suc k))) \<or>
       mask_quad_loop k w (enumerate 0 quads) m ! r ! c)"
    using Cons.prems by (intro Cons.IH) simp_all
  finally show ?case
    using Cons.prems by (auto simp: mask_quad_loop_nth nth_Cons')
qed

lemma cycle_mask_shape:
  "length (calculate_dia_cycle_mask cyc quad_slices) = length quad_slices \<and>
   (\<forall>row \<in> set (calculate_dia_cycle_mask cyc quad_slices).
      length row = length (reshape_cycle cyc))"
  by (auto simp: calculate_dia_cycle_mask_def zeros_mask_def Let_def in_set_conv_nth)

text \<open>
  Claim C3. For every cycle descriptor and every list of selection windows, the mask entry
  for window \<open>j = (w_low, w_high)\<close> and cycle entry \<open>i = (q_low, q_high)\<close> is set if and
  only if \<open>q_low \<le> w_high\<close> and \<open>q_high \<ge> w_low\<close>: the mask holds exactly the
  intersecting entries.
\<close>

theorem cycle_mask_selects_iff_intersecting:
  assumes "j < length quad_slices" and "i < length (reshape_cycle cyc)"
    and "reshape_cycle cyc ! i = (q_low, q_high)" and "quad_slices ! j = (w_low, w_high)"
  shows "calculate_dia_cycle_mask cyc quad_slices ! j ! i = (q_low \<le> w_high \<and> q_high \<ge> w_low)"
  using assms
  by (auto simp: calculate_dia_cycle_mask_def zeros_mask_def Let_def mask_cycle_loop_nth)

theorem cycle_mask_selects_iff_intersecting_witness:
  "calculate_dia_cycle_mask [[[(-1, -1), (400, 425)], [(425, 450), (450, 475)]]] [(430, 460)] ! 0 ! 2
     = ((425::real) \<le> 460 \<and> (450::real) \<ge> 430) \<and>
   calculate_dia_cycle_mask [[[(-1, -1), (400, 425)], [(425, 450), (450, 475)]]] [(430, 460)] ! 0 ! 1
     = ((400::real) \<le> 460 \<and> (425::real) \<ge> 430)"
  using cycle_mask_selects_iff_intersecting
          [of 0 "[(430, 460)]" 2 "[[[(-1, -1), (400, 425)], [(425, 450), (450, 475)]]]" 425 450 430 460]
        cycle_mask_selects_iff_intersecting
          [of 0 "[(430, 460)]" 1 "[[[(-1, -1), (400, 425)], [(425, 450), (450, 475)]]]" 400 425 430 460]
  by (simp add: reshape_cycle_def)

subsection \<open>Quadrupole limits\<close>

lemma set_row_first: "set_row (zeros2 1 2) 0 v = Inr [[v, v]]"
  by (simp add: set_row_def zeros2_def axis_index_def bind_err_def eval_nat_numeral)

lemma set_row_outside: "length a = 1 \<Longrightarrow> set_row a 1 v = Inl IndexError"
  by (simp add: set_row_def axis_index_def bind_err_def)

lemma set_row_length: "set_row a i v = Inr b \<Longrightarrow> length b = length a"
  by (auto simp: set_row_def bind_err_def split: sum.splits)

lemma calculate_score_group_limits_never_returns:
  "calculate_score_group_limits mzs intensities \<noteq> Inr q"
  by (auto simp: calculate_score_group_limits_def bind_err_def Let_def zeros2_def
        set_row_def axis_index_def split: sum.splits)

lemma array_min_is_Min:
  assumes "array_min xs = Inr lowest" shows "lowest = Min (set xs)"
proof (cases xs)
  case Nil
  then show ?thesis using assms by simp
next
  case (Cons a list)
  then show ?thesis using assms Min.set_eq_fold [of a list] by simp
qed

lemma array_max_is_Max:
  assumes "array_max xs = Inr highest" shows "highest = Max (set xs)"
proof (cases xs)
  case Nil
  then show ?thesis using assms by simp
next
  case (Cons a list)
  then show ?thesis using assms Max.set_eq_fold [of a list] by simp
qed

text \<open>
  Claim C2 says that \<^verbatim>\<open>calculate_score_group_limits\<close> returns the (1, 2) array (minimum,
  maximum) of the m/z with positive intensity and stays within bounds. The second store
  addresses row 1 of an array with one row. For the m/z 500, 600, 700 with intensities
  1, 2, 0 the call raises IndexError; the first store has filled row 0 with the minimum
  in both columns. (Compiled without bounds checks the second store lands outside the
  array instead, and the array returned is this one.)
\<close>

theorem score_group_limits_raises:
  "calculate_score_group_limits [500, 600, 700] [1, 2, 0] = Inl IndexError \<and>
   bind_err (array_min [500, 600]) (set_row (zeros2 1 2) 0) = Inr [[500, 500]]"
  by (simp add: calculate_score_group_limits_def bind_err_def boolean_select_def Let_def
        zeros2_def set_row_def axis_index_def eval_nat_numeral)

subsection \<open>Sorting by m/z\<close>

lemma sort_by_mz_leaves_channel:
  "precursor_channel (sort_by_mz self) = precursor_channel self \<and>
   precursor_isotope_intensity (sort_by_mz self) = precursor_isotope_intensity self \<and>
   precursor_abundance (sort_by_mz self) = precursor_abundance self"
  by (simp add: sort_by_mz_def Let_def)

lemma ElutionGroup_sort_by_mz_all_arrays:
  "mz (ElutionGroup_sort_by_mz self) = gather (mz self) (argsort (mz self)) \<and>
   decoy (ElutionGroup_sort_by_mz self) = gather (decoy self) (argsort (mz self)) \<and>
   isotope_apex_offset (ElutionGroup_sort_by_mz self) = gather (isotope_apex_offset self) (argsort (mz self)) \<and>
   top_isotope_mz (ElutionGroup_sort_by_mz self) = gather (top_isotope_mz self) (argsort (mz self)) \<and>
   ElutionGroup.precursor_idx (ElutionGroup_sort_by_mz self) = gather (ElutionGroup.precursor_idx self) (argsort (mz self))"
  by (simp add: ElutionGroup_sort_by_mz_def Let_def)

lemma argsort_example: "argsort [600, 500] = [1, 0]"
  by (simp add: argsort_def)

text \<open>
  Claim C4 says that the sort step reorders every per-precursor array of the group by the
  same permutation. \<^verbatim>\<open>HybridElutionGroup.sort_by_mz\<close> reorders m/z, decoy flag, precursor
  index and fragment ranges, and leaves channel and isotope intensities as they were: in
  the group of precursor 7 (m/z 600, channel 0) and precursor 8 (m/z 500, channel 4) the
  sorted first entry is precursor 8 with the channel and isotope intensities of precursor 7.
\<close>

theorem sort_by_mz_misaligns_channel:
  "precursor_mz (sort_by_mz two_precursor_group) = [500, 600] \<and>
   precursor_idx (sort_by_mz two_precursor_group) = [8, 7] \<and>
   precursor_decoy (sort_by_mz two_precursor_group) = [1, 0] \<and>
   precursor_frag_start_stop_idx (sort_by_mz two_precursor_group) = [(3, 5), (0, 3)] \<and>
   precursor_channel (sort_by_mz two_precursor_group) = [0, 4] \<and>
   precursor_isotope_intensity (sort_by_mz two_precursor_group) = [[8 / 10, 2 / 10], [6 / 10, 4 / 10]]"
  by (simp add: sort_by_mz_def two_precursor_group_def argsort_example gather_def Let_def)

subsection \<open>Frame limits\<close>

lemma expand_if_odd_start: "fst (expand_if_odd limits) = fst limits"
  by (simp add: expand_if_odd_def)

lemma expand_if_odd_stop:
  "snd (expand_if_odd limits) = (if odd (snd limits - fst limits) then snd limits + 1 else snd limits)"
proof -
  have "((snd limits - fst limits) mod 2 = 1) = odd (snd limits - fst limits)"
    using odd_iff_mod_2_eq_one [of "snd limits - fst limits"] by blast
  then show ?thesis unfolding expand_if_odd_def by (simp only: snd_conv if_distrib split: if_splits) auto
qed

lemma expand_if_odd_even: "even (snd (expand_if_odd limits) - fst (expand_if_odd limits))"
  by (auto simp: expand_if_odd_start expand_if_odd_stop)

lemma frame_range_even_make_slice_1d:
  "frame_range_even (make_slice_1d start_stop) = even (snd start_stop - fst start_stop)"
proof -
  have "even (a mod 2 ^ 64) = even a" for a :: int
    by (metis dvd_mod_iff dvd_power zero_less_numeral)
  then show ?thesis
    by (simp add: frame_range_even_def make_slice_1d_def uint_word_of_int even_diff_iff)
qed

text \<open>
  Claim C5, amended. For an MS1-centric elution group the frame limits are the converted
  range with the stop raised by 1 when the range is odd and the start unchanged, so
  \<open>stop - start\<close> is even. A hybrid score group stores the converted range as it is.
\<close>

theorem frame_limits_even_for_ms1_groups:
  "frame_range_even (ElutionGroup.frame_limits (ElutionGroup_determine_frame_limits jit_data tolerance eg)) \<and>
   ElutionGroup.frame_limits (ElutionGroup_determine_frame_limits jit_data tolerance eg) =
     make_slice_1d
       (let raw = return_frame_indices jit_data (ElutionGroup.rt eg - tolerance, ElutionGroup.rt eg + tolerance) True
        in (fst raw, if odd (snd raw - fst raw) then snd raw + 1 else snd raw)) \<and>
   frame_limits (determine_frame_limits jit_data tolerance self) =
     make_slice_1d (return_frame_indices jit_data (rt self - tolerance, rt self + tolerance) True)"
  by (simp add: ElutionGroup_determine_frame_limits_def determine_frame_limits_def Let_def
        frame_range_even_make_slice_1d expand_if_odd_even)
     (simp add: make_slice_1d_def expand_if_odd_start expand_if_odd_stop)

text \<open>
  Claim C5 as stated fails for a hybrid score group: with the conversion answering frames
  0 to 11 the stored range has odd length.
\<close>

theorem hybrid_frame_limits_odd_counterexample:
  "\<not> frame_range_even (frame_limits (determine_frame_limits small_run 30 two_precursor_group))"
  by (simp add: determine_frame_limits_def Let_def frame_range_even_make_slice_1d small_run_def)

subsection \<open>Exceptions and checked reads\<close>

lemma bind_err_Inr_iff: "bind_err m f = Inr y \<longleftrightarrow> (\<exists>x. m = Inr x \<and> f x = Inr y)"
  by (cases m) (simp_all add: bind_err_def)

lemma bind_err_Inr [simp]: "bind_err (Inr x) f = f x"
  by (simp add: bind_err_def)

lemma bind_err_Inl [simp]: "bind_err (Inl e) f = Inl e"
  by (simp add: bind_err_def)

lemma axis_index_nonneg:
  "0 \<le> i \<Longrightarrow> axis_index n i = Inr j \<longleftrightarrow> (j = nat i \<and> nat i < n)"
  by (auto simp: axis_index_def)

lemma list_get_nonneg:
  "0 \<le> i \<Longrightarrow> list_get xs i = Inr v \<longleftrightarrow> (v = xs ! nat i \<and> nat i < length xs)"
  by (auto simp: list_get_def bind_err_Inr_iff axis_index_nonneg)




subsection \<open>One hit\<close>






subsection \<open>The content of one cell\<close>




subsection \<open>The merge loop\<close>





subsection \<open>Folding the hits into the window\<close>




subsection \<open>The loops over tof indices and ions\<close>








subsection \<open>Processing a score group\<close>

lemma mask_assign_Inr:
  "mask_assign xs keep v = Inr ys \<Longrightarrow> ys = map (\<lambda>(x, k). if k then v else x) (zip xs keep) \<and> length keep = length xs"
  by (auto simp: mask_assign_def split: if_splits)

lemma abundance_by_channel:
  assumes "length channel = n"
  shows "map (\<lambda>(x, k). if k then 10 else x) (zip (replicate n (1::real)) (map (\<lambda>c. c = 0) channel)) =
         map (\<lambda>c. if c = 0 then 10 else 1) (channel :: 32 word list)"
  using assms
proof (induction channel arbitrary: n)
  case Nil
  then show ?case by simp
next
  case (Cons c channel)
  then obtain m where "n = Suc m" "length channel = m" by (cases n) auto
  then show ?case using Cons.IH [of m] by simp
qed

lemma process_prepare_fields:
  assumes "process_prepare lib jit_data fragment_container rt_tol mob_tol mz_tol self = Inr prepared"
  shows "precursor_abundance prepared = map (\<lambda>c. if c = 0 then 10 else 1) (precursor_channel self)"
    and "candidates prepared = candidates self"
    and "precursor_channel prepared = precursor_channel self"
proof -
  from assms obtain abundance where
    a: "mask_assign (replicate (length (precursor_decoy self)) 1)
          (map (\<lambda>c. c = 0) (precursor_channel self)) 10 = Inr abundance"
    and p: "precursor_abundance prepared = abundance" "candidates prepared = candidates self"
      "precursor_channel prepared = precursor_channel self"
    by (auto simp: process_prepare_def bind_err_Inr_iff Let_def sort_by_mz_def trim_isotopes_def
          assemble_isotope_mz_def determine_frame_limits_def determine_scan_limits_def
          determine_precursor_tof_limits_def determine_fragment_tof_limits_def)
  from mask_assign_Inr [OF a] have
    "abundance = map (\<lambda>(x, k). if k then 10 else x)
        (zip (replicate (length (precursor_decoy self)) 1) (map (\<lambda>c. c = 0) (precursor_channel self)))"
    and "length (precursor_channel self) = length (precursor_decoy self)"
    by simp_all
  then have "abundance = map (\<lambda>c. if c = 0 then 10 else 1) (precursor_channel self)"
    using abundance_by_channel [of "precursor_channel self" "length (precursor_decoy self)"] by simp
  then show "precursor_abundance prepared = map (\<lambda>c. if c = 0 then 10 else 1) (precursor_channel self)"
    using p by simp
  show "candidates prepared = candidates self" "precursor_channel prepared = precursor_channel self"
    using p by simp_all
qed

text \<open>
  Claim C10. The abundance vector that weights the ion intensities is fixed by the code:
  whatever the group held before, after the first part of \<^verbatim>\<open>process\<close> it is 10 where
  the channel is 0 and 1 elsewhere, taken from the channel array as it was on entry
  (before the sort by m/z), and this vector is the abundance argument of both calls of
  \<^verbatim>\<open>get_ion_group_mapping\<close>.
\<close>

theorem abundance_fixed_by_channel:
  assumes "process_prepare lib jit_data fragment_container rt_tol mob_tol mz_tol self = Inr prepared"
  shows "precursor_abundance prepared = map (\<lambda>c. if c = 0 then 10 else 1) (precursor_channel self) \<and>
         fragment_ion_group lib top_k_f prepared =
           get_ion_group_mapping lib
             (fragment_precursor_idx (fragments prepared)) (fragment_mz (fragments prepared))
             (fragment_intensity (fragments prepared)) (fragment_cardinality (fragments prepared))
             (map (\<lambda>c. if c = 0 then 10 else 1) (precursor_channel self)) top_k_f (Some 10) \<and>
         (\<exists>owner mzs intensities.
            precursor_ion_group lib top_k_p
              (prepared\<lparr>score_group_fragment_mz := fm, score_group_fragment_intensity := fi\<rparr>) =
            get_ion_group_mapping lib owner mzs intensities (replicate (length mzs) 1)
              (map (\<lambda>c. if c = 0 then 10 else 1) (precursor_channel self)) top_k_p None)"
proof -
  note a = process_prepare_fields(1) [OF assms]
  have "\<exists>owner mzs intensities.
            precursor_ion_group lib top_k_p
              (prepared\<lparr>score_group_fragment_mz := fm, score_group_fragment_intensity := fi\<rparr>) =
            get_ion_group_mapping lib owner mzs intensities (replicate (length mzs) 1)
              (precursor_abundance prepared) top_k_p None"
    unfolding precursor_ion_group_def Let_def by (intro exI) simp
  then show ?thesis using a by (simp add: fragment_ion_group_def)
qed

theorem abundance_fixed_by_channel_witness:
  "\<exists>prepared.
     process_prepare example_library small_run example_fragments 30 (3 / 100) 120 two_precursor_group
       = Inr prepared \<and>
     precursor_abundance prepared = [10, 1] \<and> precursor_mz prepared = [500, 600]"
proof -
  have "case process_prepare example_library small_run example_fragments 30 (3 / 100) 120
               two_precursor_group of
          Inl e \<Rightarrow> False | Inr g \<Rightarrow> precursor_mz g = [500, 600]"
    by code_simp
  then obtain prepared where
    run: "process_prepare example_library small_run example_fragments 30 (3 / 100) 120
            two_precursor_group = Inr prepared"
    and mz: "precursor_mz prepared = [500, 600]"
    by (auto split: sum.splits)
  have ch: "precursor_channel two_precursor_group = [0, 4]" by (simp add: two_precursor_group_def)
  show ?thesis
    using abundance_fixed_by_channel [OF run, of 12 3 "[]" "[]"] run mz by (simp add: ch)
qed

subsection \<open>Candidates of a processed group\<close>

lemma build_candidates_emits_nothing:
  "build_candidates lib dense_frag dense_prec kernel_matrix count jit_data = Inr found
   \<Longrightarrow> found = []"
  by (auto simp: build_candidates_def bind_err_Inr_iff Let_def split: if_splits)

lemma build_candidates_small_window:
  assumes "shape dense_frag = [n_ions, n_obs, n_scans, n_cycles]" and "shape kernel_matrix = [k0, k1]"
    and "n_scans < k0 \<or> n_cycles < k1"
  shows "build_candidates lib dense_frag dense_prec kernel_matrix count jit_data = Inr []"
  using assms
  by (auto simp: build_candidates_def list_get_def axis_index_def Let_def)

lemma extract_dense_windows_keeps_candidates:
  "extract_dense_windows lib jit_data mz_tol precursor_mzs fragment_mzs quadrupole_mz self = Inr self'
   \<Longrightarrow> candidates self' = candidates self"
  by (auto simp: extract_dense_windows_def bind_err_Inr_iff Let_def split: if_splits prod.splits)

lemma process_without_fragment_ions:
  assumes "process_prepare lib jit_data fragment_container rt_tol mob_tol mz_tol self = Inr prepared"
    and "fst (fragment_ion_group lib top_k_f prepared) = []"
  shows "process lib jit_data fragment_container kernel_matrix rt_tol mob_tol mz_tol count
           dbg exclude top_k_f top_k_p self = Inr prepared \<and> candidates prepared = candidates self"
  using assms process_prepare_fields(2) [OF assms(1)]
  by (auto simp: process_def split: prod.splits)

lemma process_without_precursor_ions:
  assumes "process_prepare lib jit_data fragment_container rt_tol mob_tol mz_tol self = Inr prepared"
    and "fragment_ion_group lib top_k_f prepared = (fm, fi)" and "fm \<noteq> []"
    and "fst (precursor_ion_group lib top_k_p
                (prepared\<lparr>score_group_fragment_mz := fm, score_group_fragment_intensity := fi\<rparr>)) = []"
  shows "process lib jit_data fragment_container kernel_matrix rt_tol mob_tol mz_tol count
           dbg exclude top_k_f top_k_p self =
         Inr (prepared\<lparr>score_group_fragment_mz := fm, score_group_fragment_intensity := fi\<rparr>) \<and>
         candidates (prepared\<lparr>score_group_fragment_mz := fm, score_group_fragment_intensity := fi\<rparr>)
           = candidates self"
  using assms process_prepare_fields(2) [OF assms(1)]
  by (auto simp: process_def Let_def split: prod.splits)

lemma process_raises_with_both_ion_lists:
  assumes "process_prepare lib jit_data fragment_container rt_tol mob_tol mz_tol self = Inr prepared"
    and "fragment_ion_group lib top_k_f prepared = (fm, fi)" and "fm \<noteq> []"
    and "fst (precursor_ion_group lib top_k_p
                (prepared\<lparr>score_group_fragment_mz := fm, score_group_fragment_intensity := fi\<rparr>)) \<noteq> []"
  shows "\<exists>e. process lib jit_data fragment_container kernel_matrix rt_tol mob_tol mz_tol count
           dbg exclude top_k_f top_k_p self = Inl e"
proof -
  have "bind_err (calculate_score_group_limits a b) f \<noteq> Inr y" for a b y
    and f :: "real list list \<Rightarrow> py_error + HybridElutionGroup"
    using calculate_score_group_limits_never_returns [of a b] by (auto simp: bind_err_Inr_iff)
  then have "process lib jit_data fragment_container kernel_matrix rt_tol mob_tol mz_tol count
           dbg exclude top_k_f top_k_p self \<noteq> Inr y" for y
    using assms by (auto simp: process_def Let_def split: prod.splits)
  then show ?thesis
    by (cases "process lib jit_data fragment_container kernel_matrix rt_tol mob_tol mz_tol count
           dbg exclude top_k_f top_k_p self") auto
qed

lemma process_never_emits:
  assumes run: "process lib jit_data fragment_container kernel_matrix rt_tol mob_tol mz_tol count
     dbg exclude top_k_f top_k_p self = Inr self'"
  shows "candidates self' = candidates self"
proof -
  from run obtain prepared where
    prep: "process_prepare lib jit_data fragment_container rt_tol mob_tol mz_tol self = Inr prepared"
    by (auto simp: process_def bind_err_Inr_iff)
  note keep = process_prepare_fields(2) [OF prep]
  obtain fm fi where f: "fragment_ion_group lib top_k_f prepared = (fm, fi)"
    by (cases "fragment_ion_group lib top_k_f prepared")
  show ?thesis
  proof (cases "fm = []")
    case True
    then show ?thesis
      using process_without_fragment_ions [OF prep, of top_k_f kernel_matrix count dbg exclude top_k_p]
        f run by simp
  next
    case fm: False
    let ?g = "prepared\<lparr>score_group_fragment_mz := fm, score_group_fragment_intensity := fi\<rparr>"
    show ?thesis
    proof (cases "fst (precursor_ion_group lib top_k_p ?g) = []")
      case True
      then show ?thesis
        using process_without_precursor_ions [OF prep f fm True, of kernel_matrix count dbg exclude]
          run by simp
    next
      case False
      then show ?thesis
        using process_raises_with_both_ion_lists [OF prep f fm False, of kernel_matrix count dbg exclude]
          run by simp
    qed
  qed
qed





subsection \<open>Roots of unity\<close>

lemma twiddle_zero [simp]: "twiddle n 0 = 1"
  by (simp add: twiddle_def)

lemma twiddle_add: "twiddle n (a + b) = twiddle n a * twiddle n b"
  by (simp add: twiddle_def cis_mult ring_distribs add_divide_distrib)

lemma twiddle_minus: "twiddle n (- a) = cnj (twiddle n a)"
  by (simp add: twiddle_def cis_cnj)

lemma twiddle_full_turn: "0 < n \<Longrightarrow> twiddle n (int n * k) = 1"
proof -
  assume "0 < n"
  then have "2 * pi * real_of_int (int n * k) / real n = 2 * pi * of_int k" by simp
  then have "twiddle n (int n * k) = cis (2 * pi * of_int k)" by (simp add: twiddle_def)
  also have "\<dots> = 1" by (simp add: complex_eq_iff)
  finally show ?thesis .
qed

lemma twiddle_mod: "0 < n \<Longrightarrow> twiddle n (a mod int n) = twiddle n a"
proof -
  assume n: "0 < n"
  have "a = a mod int n + int n * (a div int n)" by simp
  then have "twiddle n a = twiddle n (a mod int n) * twiddle n (int n * (a div int n))"
    by (metis twiddle_add)
  then show ?thesis using twiddle_full_turn [OF n] by simp
qed

lemma twiddle_power: "twiddle n (int u * m) = twiddle n m ^ u"
  by (simp add: twiddle_def DeMoivre algebra_simps)

lemma twiddle_eq_one_iff:
  assumes "0 < n"
  shows "twiddle n m = 1 \<longleftrightarrow> int n dvd m"
proof
  assume "twiddle n m = 1"
  then have "cos (2 * pi * real_of_int m / real n) = 1"
    by (simp add: twiddle_def complex_eq_iff)
  then obtain k :: int where k: "2 * pi * real_of_int m / real n = of_int k * 2 * pi"
    using cos_one_2pi_int by blast
  then have "real_of_int m = of_int k * real n" using assms by (simp add: field_simps)
  then have "real_of_int m = real_of_int (k * int n)" by simp
  then have "m = k * int n" by (simp only: of_int_eq_iff)
  then show "int n dvd m" by simp
next
  assume "int n dvd m"
  then obtain k where "m = int n * k" by (auto simp: dvd_def)
  then show "twiddle n m = 1" using twiddle_full_turn [OF assms] by simp
qed

lemma twiddle_orthogonal:
  assumes "0 < n"
  shows "(\<Sum>u<n. twiddle n (int u * m)) = (if int n dvd m then of_nat n else 0)"
proof (cases "int n dvd m")
  case True
  then have "twiddle n m = 1" using twiddle_eq_one_iff [OF assms] by simp
  then show ?thesis using True by (simp add: twiddle_power)
next
  case False
  then have ne: "twiddle n m \<noteq> 1" using twiddle_eq_one_iff [OF assms] by simp
  have "twiddle n m ^ n = twiddle n (int n * m)" by (simp add: twiddle_power)
  also have "\<dots> = 1" using twiddle_full_turn [OF assms] by simp
  finally have one: "twiddle n m ^ n = 1" .
  have "(\<Sum>u<n. twiddle n m ^ u) = (twiddle n m ^ n - 1) / (twiddle n m - 1)"
    using ne by (rule geometric_sum)
  then show ?thesis using False one by (simp add: twiddle_power)
qed

subsection \<open>The discrete Fourier transform of one axis\<close>

lemma twiddle_mult_mod: "0 < n \<Longrightarrow> twiddle n (k * (m mod int n)) = twiddle n (k * m)"
proof -
  assume n: "0 < n"
  have "twiddle n (k * (m mod int n)) = twiddle n ((k * (m mod int n)) mod int n)"
    using twiddle_mod [OF n] by simp
  also have "(k * (m mod int n)) mod int n = (k * m) mod int n"
    by (simp add: mod_mult_right_eq)
  also have "twiddle n ((k * m) mod int n) = twiddle n (k * m)"
    using twiddle_mod [OF n] by simp
  finally show ?thesis .
qed

lemma dvd_diff_small:
  assumes "s < n" and "t < n"
  shows "int n dvd int s - int t \<longleftrightarrow> t = s"
proof
  assume d: "int n dvd int s - int t"
  have "\<bar>int s - int t\<bar> < int n" using assms by linarith
  then have "int s - int t = 0" using d
    by (metis abs_ge_zero dvd_abs_iff linorder_not_less zdvd_imp_le zero_less_abs_iff)
  then show "t = s" by simp
next
  assume "t = s"
  then show "int n dvd int s - int t" by simp
qed

lemma idft_dft:
  assumes "0 < n" and "s < n"
  shows "idft n (dft n x) s = x s"
proof -
  have "(\<Sum>u<n. dft n x u * twiddle n (int (u * s))) =
        (\<Sum>u<n. \<Sum>t<n. x t * twiddle n (int u * (int s - int t)))"
  proof (intro sum.cong refl)
    fix u
    have "twiddle n (- int (u * t)) * twiddle n (int (u * s)) = twiddle n (int u * (int s - int t))" for t
      by (simp add: twiddle_add [symmetric] algebra_simps)
    then show "dft n x u * twiddle n (int (u * s)) = (\<Sum>t<n. x t * twiddle n (int u * (int s - int t)))"
      by (simp add: dft_def sum_distrib_right mult.assoc)
  qed
  also have "\<dots> = (\<Sum>t<n. \<Sum>u<n. x t * twiddle n (int u * (int s - int t)))"
    by (rule sum.swap)
  also have "\<dots> = (\<Sum>t<n. x t * (if int n dvd int s - int t then of_nat n else 0))"
    using twiddle_orthogonal [OF assms(1)] by (simp add: sum_distrib_left [symmetric])
  also have "\<dots> = (\<Sum>t<n. if t = s then x s * of_nat n else 0)"
    using assms(2) by (intro sum.cong refl) (simp add: dvd_diff_small)
  also have "\<dots> = x s * of_nat n"
    using assms(2) by (simp add: sum.delta)
  finally show ?thesis using assms(1) by (simp add: idft_def)
qed

lemma sum_circular_shift:
  fixes g :: "nat \<Rightarrow> 'a::comm_monoid_add"
  assumes "0 < n"
  shows "(\<Sum>s<n. g (nat ((int s - int t) mod int n))) = (\<Sum>r<n. g r)"
proof -
  have inv1: "nat (((int s - int t) mod int n + int t) mod int n) = s" if "s < n" for s
  proof -
    have "((int s - int t) mod int n + int t) mod int n = int s mod int n"
      by (simp add: mod_add_left_eq)
    then show ?thesis using that by simp
  qed
  have inv2: "nat (((int r + int t) mod int n - int t) mod int n) = r" if "r < n" for r
  proof -
    have "((int r + int t) mod int n - int t) mod int n = int r mod int n"
      by (simp add: mod_diff_left_eq)
    then show ?thesis using that by simp
  qed
  have inside: "nat (a mod int n) < n" for a
    using assms by (simp add: nat_less_iff)
  show ?thesis
    by (rule sum.reindex_bij_witness [where i = "\<lambda>r. nat ((int r + int t) mod int n)"
          and j = "\<lambda>s. nat ((int s - int t) mod int n)"])
       (simp_all add: inv1 inv2 inside)
qed

lemma dft_convolution:
  assumes "0 < n"
  shows "dft n x u * dft n y u =
         dft n (\<lambda>s. \<Sum>t<n. x t * y (nat ((int s - int t) mod int n))) u"
proof -
  have shift: "(\<Sum>s<n. y (nat ((int s - int t) mod int n)) * twiddle n (- int (u * s))) =
        twiddle n (- int (u * t)) * dft n y u" for t
  proof -
    have tw: "twiddle n (- int (u * s)) =
        twiddle n (- int (u * t)) * twiddle n (- int (u * nat ((int s - int t) mod int n)))" for s
    proof -
      have "twiddle n (- int (u * nat ((int s - int t) mod int n))) =
            twiddle n ((- int u) * ((int s - int t) mod int n))"
        using assms by simp
      also have "\<dots> = twiddle n ((- int u) * (int s - int t))"
        using assms by (rule twiddle_mult_mod)
      finally show ?thesis by (simp add: twiddle_add [symmetric] algebra_simps)
    qed
    have "(\<Sum>s<n. y (nat ((int s - int t) mod int n)) * twiddle n (- int (u * s))) =
          twiddle n (- int (u * t)) *
            (\<Sum>s<n. y (nat ((int s - int t) mod int n)) *
                     twiddle n (- int (u * nat ((int s - int t) mod int n))))"
      by (subst tw) (simp add: sum_distrib_left mult_ac)
    also have "(\<Sum>s<n. y (nat ((int s - int t) mod int n)) *
                     twiddle n (- int (u * nat ((int s - int t) mod int n)))) =
               (\<Sum>r<n. y r * twiddle n (- int (u * r)))"
      using assms by (rule sum_circular_shift [where g = "\<lambda>r. y r * twiddle n (- int (u * r))"])
    finally show ?thesis by (simp add: dft_def)
  qed
  have "dft n (\<lambda>s. \<Sum>t<n. x t * y (nat ((int s - int t) mod int n))) u =
        (\<Sum>s<n. \<Sum>t<n. x t * y (nat ((int s - int t) mod int n)) * twiddle n (- int (u * s)))"
    by (simp add: dft_def sum_distrib_right)
  also have "\<dots> = (\<Sum>t<n. \<Sum>s<n. x t * y (nat ((int s - int t) mod int n)) * twiddle n (- int (u * s)))"
    by (rule sum.swap)
  also have "\<dots> = (\<Sum>t<n. x t * (\<Sum>s<n. y (nat ((int s - int t) mod int n)) * twiddle n (- int (u * s))))"
    by (simp add: sum_distrib_left mult.assoc)
  also have "\<dots> = (\<Sum>t<n. x t * (twiddle n (- int (u * t)) * dft n y u))"
    by (simp only: shift)
  also have "\<dots> = dft n x u * dft n y u"
    by (simp add: dft_def sum_distrib_right mult.assoc)
  finally show ?thesis by simp
qed

subsection \<open>The real transform and its inverse\<close>

lemma dft_real_mirror:
  assumes "0 < n" and "v \<le> n"
  shows "dft n (\<lambda>s. of_real (x s)) (n - v) = cnj (dft n (\<lambda>s. of_real (x s)) v)"
proof -
  have "twiddle n (- int ((n - v) * s)) = cnj (twiddle n (- int (v * s)))" for s
  proof -
    have "- int ((n - v) * s) = int (v * s) + int n * (- int s)"
      using assms(2) by (simp add: of_nat_diff algebra_simps)
    then have "twiddle n (- int ((n - v) * s)) = twiddle n (int (v * s)) * twiddle n (int n * (- int s))"
      by (simp only: twiddle_add)
    also have "\<dots> = twiddle n (int (v * s))"
      by (simp only: twiddle_full_turn [OF assms(1)] mult_1_right)
    also have "\<dots> = cnj (twiddle n (- int (v * s)))"
      using twiddle_minus [of n "- int (v * s)"] by simp
    finally show ?thesis .
  qed
  then show ?thesis by (simp add: dft_def)
qed

lemma twiddle_mirror:
  assumes "0 < n" and "v \<le> n"
  shows "twiddle n (int ((n - v) * c)) = cnj (twiddle n (int (v * c)))"
proof -
  have "int ((n - v) * c) = - int (v * c) + int n * int c"
    using assms(2) by (simp add: of_nat_diff algebra_simps)
  then have "twiddle n (int ((n - v) * c)) = twiddle n (- int (v * c)) * twiddle n (int n * int c)"
    by (simp only: twiddle_add)
  also have "\<dots> = twiddle n (- int (v * c))"
    by (simp only: twiddle_full_turn [OF assms(1)] mult_1_right)
  finally show ?thesis by (simp only: twiddle_minus)
qed

lemma twiddle_half_turn_real: "Im (twiddle (2 * h) (int (h * c))) = 0"
proof (cases "h = 0")
  case True
  then show ?thesis by (simp add: twiddle_def)
next
  case False
  then have "2 * pi * real_of_int (int (h * c)) / real (2 * h) = real c * pi" by simp
  then show ?thesis by (simp add: twiddle_def)
qed

lemma sum_split_halves:
  fixes f :: "nat \<Rightarrow> real"
  assumes "0 < h"
  shows "(\<Sum>v<2 * h. f v) = f 0 + (\<Sum>v = 1..<h. f v) + f h + (\<Sum>v = 1..<h. f (2 * h - v))"
proof -
  have "(\<Sum>v<2 * h. f v) = (\<Sum>v = 0..<2 * h. f v)" by (simp add: lessThan_atLeast0)
  also have "\<dots> = (\<Sum>v = 0..<Suc h. f v) + (\<Sum>v = Suc h..<2 * h. f v)"
    using assms by (intro sum.atLeastLessThan_concat [symmetric]) simp_all
  also have "(\<Sum>v = 0..<Suc h. f v) = f 0 + (\<Sum>v = 1..<h. f v) + f h"
    using assms by (simp add: sum.atLeast_Suc_lessThan)
  also have "(\<Sum>v = Suc h..<2 * h. f v) = (\<Sum>v = 1..<h. f (2 * h - v))"
    by (rule sum.reindex_bij_witness [where i = "\<lambda>v. 2 * h - v" and j = "\<lambda>v. 2 * h - v"]) auto
  finally show ?thesis .
qed

lemma irfft_dft_real:
  assumes "even n" and "0 < n" and "c < n"
  shows "irfft (n div 2 + 1) (dft n (\<lambda>s. of_real (x s))) c = x c"
proof -
  define h where "h = n div 2"
  have n: "n = 2 * h" and h: "0 < h" using assms by (auto simp: h_def)
  define R where "R = dft n (\<lambda>s. of_real (x s))"
  define T where "T v = R v * twiddle n (int (v * c))" for v
  have "idft n R c = of_real (x c)"
    unfolding R_def using assms(2,3) by (rule idft_dft)
  then have "(\<Sum>v<n. T v) = of_real (x c) * of_nat n"
    using assms(2) by (simp add: idft_def T_def field_simps)
  then have "Re (\<Sum>v<n. T v) = x c * real n" by simp
  then have total: "(\<Sum>v<2 * h. Re (T v)) = x c * real n" by (simp add: n)
  have mirror: "Re (T (2 * h - v)) = Re (T v)" if "v \<in> {1..<h}" for v
  proof -
    have v: "v \<le> n" using that n by simp
    have "T (n - v) = cnj (T v)"
      unfolding T_def R_def
      using dft_real_mirror [OF assms(2) v, of x] twiddle_mirror [OF assms(2) v, of c] by simp
    then show ?thesis by (simp add: n)
  qed
  have first: "Re (T 0) = Re (R 0)" by (simp add: T_def)
  have middle: "Re (T h) = Re (R h) * Re (twiddle n (int (h * c)))"
    using twiddle_half_turn_real [of h c] by (simp add: T_def n)
  have "x c * real n =
        Re (T 0) + (\<Sum>v = 1..<h. Re (T v)) + Re (T h) + (\<Sum>v = 1..<h. Re (T (2 * h - v)))"
    using total sum_split_halves [OF h, of "\<lambda>v. Re (T v)"] by simp
  also have "(\<Sum>v = 1..<h. Re (T (2 * h - v))) = (\<Sum>v = 1..<h. Re (T v))"
    using mirror by (intro sum.cong refl) simp
  finally have "x c * real n =
        Re (R 0) + (\<Sum>v = 1..<h. 2 * Re (T v)) + Re (R h) * Re (twiddle n (int (h * c)))"
    by (simp add: first middle sum_distrib_left [symmetric])
  moreover have "irfft (n div 2 + 1) R c =
      (Re (R 0) + (\<Sum>v = 1..<h. 2 * Re (T v)) + Re (R h) * Re (twiddle n (int (h * c)))) / real n"
    by (simp add: irfft_def Let_def h_def [symmetric] n [symmetric] T_def)
  ultimately have "irfft (n div 2 + 1) R c = x c * real n / real n"
    by (simp only:)
  then show ?thesis
    using assms(2) by (simp add: R_def)
qed

subsection \<open>Two axes\<close>

lemma dft_sum: "dft n (\<lambda>s. \<Sum>t<k. f t s) u = (\<Sum>t<k. dft n (f t) u)"
proof -
  have "dft n (\<lambda>s. \<Sum>t<k. f t s) u = (\<Sum>s<n. \<Sum>t<k. f t s * twiddle n (- int (u * s)))"
    by (simp add: dft_def sum_distrib_right)
  also have "\<dots> = (\<Sum>t<k. \<Sum>s<n. f t s * twiddle n (- int (u * s)))"
    by (rule sum.swap)
  finally show ?thesis by (simp add: dft_def)
qed

lemma rfft2_convolution:
  assumes "0 < n_scans" and "0 < n_cycles"
  shows "rfft2 n_scans n_cycles a u v * rfft2 n_scans n_cycles k u v =
         rfft2 n_scans n_cycles (circular_convolution n_scans n_cycles a k) u v"
proof -
  define A where "A s = dft n_cycles (\<lambda>c. of_real (a s c)) v" for s
  define K where "K s = dft n_cycles (\<lambda>c. of_real (k s c)) v" for s
  have rows: "A s1 * K r =
      dft n_cycles (\<lambda>c. \<Sum>c1<n_cycles.
         of_real (a s1 c1) * of_real (k r (nat ((int c - int c1) mod int n_cycles)))) v" for s1 r
    unfolding A_def K_def by (rule dft_convolution [OF assms(2)])
  have "rfft2 n_scans n_cycles a u v * rfft2 n_scans n_cycles k u v = dft n_scans A u * dft n_scans K u"
    by (simp add: rfft2_def A_def [abs_def] K_def [abs_def])
  also have "\<dots> = dft n_scans (\<lambda>s. \<Sum>s1<n_scans. A s1 * K (nat ((int s - int s1) mod int n_scans))) u"
    by (rule dft_convolution [OF assms(1)])
  also have "(\<lambda>s. \<Sum>s1<n_scans. A s1 * K (nat ((int s - int s1) mod int n_scans))) =
        (\<lambda>s. dft n_cycles (\<lambda>c. of_real (circular_convolution n_scans n_cycles a k s c)) v)"
  proof
    fix s
    have "(\<Sum>s1<n_scans. A s1 * K (nat ((int s - int s1) mod int n_scans))) =
          (\<Sum>s1<n_scans. dft n_cycles (\<lambda>c. \<Sum>c1<n_cycles.
             of_real (a s1 c1) *
             of_real (k (nat ((int s - int s1) mod int n_scans))
                        (nat ((int c - int c1) mod int n_cycles)))) v)"
      by (simp only: rows)
    also have "\<dots> = dft n_cycles (\<lambda>c. \<Sum>s1<n_scans. \<Sum>c1<n_cycles.
             of_real (a s1 c1) *
             of_real (k (nat ((int s - int s1) mod int n_scans))
                        (nat ((int c - int c1) mod int n_cycles)))) v"
      by (rule dft_sum [symmetric])
    also have "\<dots> = dft n_cycles (\<lambda>c. of_real (circular_convolution n_scans n_cycles a k s c)) v"
      by (simp add: circular_convolution_def)
    finally show "(\<Sum>s1<n_scans. A s1 * K (nat ((int s - int s1) mod int n_scans))) =
          dft n_cycles (\<lambda>c. of_real (circular_convolution n_scans n_cycles a k s c)) v" .
  qed
  finally show ?thesis by (simp add: rfft2_def)
qed

lemma irfft2_rfft2:
  assumes "even n_cycles" and "0 < n_cycles" and "0 < n_scans" and "s < n_scans" and "c < n_cycles"
  shows "irfft2 n_scans (n_cycles div 2 + 1) (rfft2 n_scans n_cycles g) s c = g s c"
proof -
  have "(\<lambda>v. idft n_scans (\<lambda>u. rfft2 n_scans n_cycles g u v) s) =
        dft n_cycles (\<lambda>c. of_real (g s c))"
  proof
    fix v
    have "idft n_scans (dft n_scans (\<lambda>s. dft n_cycles (\<lambda>c. of_real (g s c)) v)) s =
          dft n_cycles (\<lambda>c. of_real (g s c)) v"
      using assms(3,4) by (rule idft_dft)
    then show "idft n_scans (\<lambda>u. rfft2 n_scans n_cycles g u v) s =
          dft n_cycles (\<lambda>c. of_real (g s c)) v"
      by (simp add: rfft2_def)
  qed
  then show ?thesis
    using irfft_dft_real [OF assms(1,2,5), of "g s"] by (simp add: irfft2_def)
qed

subsection \<open>The Fourier smoothing\<close>

lemma roll_index_less: "0 < n \<Longrightarrow> roll_index n shift i < n"
  by (simp add: roll_index_def nat_less_iff)

lemma roll_shift_ceiling: "(- int k) div 2 = - int ((k + 1) div 2)"
  by (cases "even k") (auto elim!: evenE oddE)

lemma roll_shift_even: "even k \<Longrightarrow> (- int k) div 2 = - int (k div 2)"
  by (auto elim!: evenE)

lemma roll_shift_odd: "odd k \<Longrightarrow> (- int k) div 2 = - int (k div 2) - 1"
  by (auto elim!: oddE)

lemma fourier_filter_result:
  assumes run: "fourier_filter dense kern = Inr smooth"
  shows "shape smooth = [shape dense ! 1, shape dense ! 2,
                         shape dense ! 3 - shape dense ! 3 mod 2,
                         shape dense ! 4 - shape dense ! 4 mod 2]"
    and "0 < shape dense ! 3 - shape dense ! 3 mod 2"
    and "0 < shape dense ! 4 - shape dense ! 4 mod 2"
    and "s < shape dense ! 3 - shape dense ! 3 mod 2 \<Longrightarrow> c < shape dense ! 4 - shape dense ! 4 mod 2 \<Longrightarrow>
         item smooth [i, j, s, c] =
           shifted_convolution dense kern ((- int (shape kern ! 0)) div 2)
             ((- int (shape kern ! 1)) div 2) i j s c"
proof -
  define S where "S = shape dense ! 3 - shape dense ! 3 mod 2"
  define C where "C = shape dense ! 4 - shape dense ! 4 mod 2"
  define k0 where "k0 = shape kern ! 0"
  define k1 where "k1 = shape kern ! 1"
  define a where "a i j = (\<lambda>s c. item dense [0, i, j, s, c])" for i j
  from run have pos: "0 < S" "0 < C"
    and smooth: "smooth = \<lparr>shape = [shape dense ! 1, shape dense ! 2, S, C],
        item = (\<lambda>p. case p of
           [i, j, s, c] \<Rightarrow>
             irfft2 S (C div 2 + 1)
               (\<lambda>u v. rfft2 S C (a i j) u v * rfft2 S C (fit_kernel kern k0 k1) u v)
               (roll_index S ((- int k0) div 2) s) (roll_index C ((- int k1) div 2) c)
         | _ \<Rightarrow> 0)\<rparr>"
    unfolding fourier_filter_def Let_def S_def C_def k0_def k1_def a_def
    by (auto simp: bind_err_Inr_iff list_get_nonneg split: if_splits)
  show "shape smooth = [shape dense ! 1, shape dense ! 2,
                         shape dense ! 3 - shape dense ! 3 mod 2,
                         shape dense ! 4 - shape dense ! 4 mod 2]"
    using smooth by (simp add: S_def C_def)
  show "0 < shape dense ! 3 - shape dense ! 3 mod 2" "0 < shape dense ! 4 - shape dense ! 4 mod 2"
    using pos by (simp_all add: S_def C_def)
  have evenC: "even C" unfolding C_def by presburger
  have "item smooth [i, j, s, c] =
        irfft2 S (C div 2 + 1)
          (\<lambda>u v. rfft2 S C (a i j) u v * rfft2 S C (fit_kernel kern k0 k1) u v)
          (roll_index S ((- int k0) div 2) s) (roll_index C ((- int k1) div 2) c)"
    using smooth by simp
  also have "(\<lambda>u v. rfft2 S C (a i j) u v * rfft2 S C (fit_kernel kern k0 k1) u v) =
        rfft2 S C (circular_convolution S C (a i j) (fit_kernel kern k0 k1))"
    by (intro ext) (rule rfft2_convolution [OF pos])
  also have "irfft2 S (C div 2 + 1)
          (rfft2 S C (circular_convolution S C (a i j) (fit_kernel kern k0 k1)))
          (roll_index S ((- int k0) div 2) s) (roll_index C ((- int k1) div 2) c) =
        circular_convolution S C (a i j) (fit_kernel kern k0 k1)
          (roll_index S ((- int k0) div 2) s) (roll_index C ((- int k1) div 2) c)"
    using evenC pos by (intro irfft2_rfft2) (simp_all add: roll_index_less)
  finally show "item smooth [i, j, s, c] =
           shifted_convolution dense kern ((- int (shape kern ! 0)) div 2)
             ((- int (shape kern ! 1)) div 2) i j s c"
    by (simp add: shifted_convolution_def Let_def S_def C_def k0_def k1_def a_def)
qed

lemma fourier_filter_reads_channel_0:
  assumes "shape other = shape dense" and "\<forall>p. item other (0 # p) = item dense (0 # p)"
  shows "fourier_filter other kern = fourier_filter dense kern"
proof -
  have "item other [0, i, j, s, c] = item dense [0, i, j, s, c]" for i j s c
    using assms(2) by simp
  then show ?thesis unfolding fourier_filter_def Let_def assms(1) by (simp only:)
qed

text \<open>
  Claim C8, amended. Where the smoothing returns, the result has the shape
  (precursors, observations, scans, cycles) with odd scan and cycle counts lowered by
  one; each entry is the circular convolution of the channel-0 slice with the kernel
  fitted to that size, read at the position shifted by \<open>(k0 + 1) div 2\<close> scans and
  \<open>(k1 + 1) div 2\<close> cycles, which is the shift \<open>(- k0) div 2\<close> and \<open>(- k1) div 2\<close> of the
  code and equals \<open>- (k div 2)\<close> for even kernel sizes (\<open>roll_shift_even\<close>); and a stack
  that differs only outside channel 0 gives the same result. The equality is that of
  exact arithmetic; the float32 output holds roundings.
\<close>

theorem fourier_filter_shifted_convolution:
  assumes "fourier_filter dense_stack kernel_matrix = Inr smooth"
    and "s < shape smooth ! 2" and "c < shape smooth ! 3"
  shows "shape smooth = [shape dense_stack ! 1, shape dense_stack ! 2,
                         shape dense_stack ! 3 - shape dense_stack ! 3 mod 2,
                         shape dense_stack ! 4 - shape dense_stack ! 4 mod 2] \<and>
         item smooth [i, j, s, c] =
           shifted_convolution dense_stack kernel_matrix
             (- int ((shape kernel_matrix ! 0 + 1) div 2))
             (- int ((shape kernel_matrix ! 1 + 1) div 2)) i j s c \<and>
         (\<forall>other. shape other = shape dense_stack \<and>
                  (\<forall>p. item other (0 # p) = item dense_stack (0 # p)) \<longrightarrow>
                  fourier_filter other kernel_matrix = Inr smooth)"
proof -
  note r = fourier_filter_result [OF assms(1)]
  have s: "s < shape dense_stack ! 3 - shape dense_stack ! 3 mod 2"
    and c: "c < shape dense_stack ! 4 - shape dense_stack ! 4 mod 2"
    using assms(2,3) r(1) by simp_all
  have "item smooth [i, j, s, c] =
           shifted_convolution dense_stack kernel_matrix
             (- int ((shape kernel_matrix ! 0 + 1) div 2))
             (- int ((shape kernel_matrix ! 1 + 1) div 2)) i j s c"
    using r(4) [OF s c, of i j] by (simp only: roll_shift_ceiling)
  moreover have "\<forall>other. shape other = shape dense_stack \<and>
                  (\<forall>p. item other (0 # p) = item dense_stack (0 # p)) \<longrightarrow>
                  fourier_filter other kernel_matrix = Inr smooth"
    using fourier_filter_reads_channel_0 [of _ dense_stack kernel_matrix] assms(1) by auto
  ultimately show ?thesis using r(1) by simp
qed

lemma example_filter_runs:
  "\<exists>smooth. fourier_filter example_stack unit_kernel = Inr smooth"
  by (simp add: fourier_filter_def example_stack_def unit_kernel_def list_get_def axis_index_def Let_def)

lemma example_convolution_values:
  "shifted_convolution example_stack unit_kernel (- 1) (- 1) 0 0 0 0 = 4"
  "shifted_convolution example_stack unit_kernel 0 0 0 0 0 0 = 1"
  by (simp_all add: shifted_convolution_def circular_convolution_def example_stack_def
        unit_kernel_def fit_kernel_def roll_index_def Let_def lessThan_Suc numeral_2_eq_2)

theorem fourier_filter_shifted_convolution_witness:
  "\<exists>smooth. fourier_filter example_stack unit_kernel = Inr smooth \<and>
     shape smooth = [1, 1, 2, 2] \<and> item smooth [0, 0, 0, 0] = 4"
proof -
  from example_filter_runs obtain smooth where
    run: "fourier_filter example_stack unit_kernel = Inr smooth" by blast
  have shp: "shape smooth = [1, 1, 2, 2]"
    using fourier_filter_result(1) [OF run] by (simp add: example_stack_def)
  have s: "0 < shape smooth ! 2" and c: "0 < shape smooth ! 3" using shp by simp_all
  have k: "- int ((shape unit_kernel ! 0 + 1) div 2) = - 1"
    "- int ((shape unit_kernel ! 1 + 1) div 2) = - 1"
    by (simp_all add: unit_kernel_def)
  from fourier_filter_shifted_convolution [OF run s c, of 0 0]
  have "item smooth [0, 0, 0, 0] = shifted_convolution example_stack unit_kernel (- 1) (- 1) 0 0 0 0"
    unfolding k by blast
  then show ?thesis using run shp example_convolution_values(1) by auto
qed

text \<open>
  Claim C8 as stated, with the shift \<open>- (k div 2)\<close>, fails for a kernel of odd size: with
  the 1 by 1 kernel the claimed shift is 0 and the smoothed entry at the origin would be
  1, the entry of the stack there; the code shifts by one position and the entry is 4.
\<close>

theorem fourier_filter_odd_kernel_counterexample:
  "\<exists>smooth. fourier_filter example_stack unit_kernel = Inr smooth \<and>
     item smooth [0, 0, 0, 0] \<noteq>
       shifted_convolution example_stack unit_kernel
         (- int (shape unit_kernel ! 0 div 2)) (- int (shape unit_kernel ! 1 div 2)) 0 0 0 0"
proof -
  from example_filter_runs obtain smooth where
    run: "fourier_filter example_stack unit_kernel = Inr smooth" by blast
  have "item smooth [0, 0, 0, 0] =
        shifted_convolution example_stack unit_kernel ((- int (shape unit_kernel ! 0)) div 2)
          ((- int (shape unit_kernel ! 1)) div 2) 0 0 0 0"
    using fourier_filter_result(4) [OF run, of 0 0 0 0] by (simp add: example_stack_def)
  also have "\<dots> = shifted_convolution example_stack unit_kernel (- 1) (- 1) 0 0 0 0"
    by (simp add: unit_kernel_def)
  finally have "item smooth [0, 0, 0, 0] = 4" using example_convolution_values(1) by simp
  moreover have "shifted_convolution example_stack unit_kernel
         (- int (shape unit_kernel ! 0 div 2)) (- int (shape unit_kernel ! 1 div 2)) 0 0 0 0 = 1"
    using example_convolution_values(2) by (simp add: unit_kernel_def)
  ultimately show ?thesis using run by auto
qed

subsection \<open>Bounds on the constants of the kernel\<close>

lemma exp_taylor_bounds:
  fixes x :: real
  assumes "x \<le> 0" and "- 1 \<le> x"
  shows "(\<Sum>m<6. x ^ m / fact m) \<le> exp x \<and> exp x \<le> (\<Sum>m<6. x ^ m / fact m) + 3 * x ^ 6 / 720"
proof -
  obtain t where t: "\<bar>t\<bar> \<le> \<bar>x\<bar>"
    and e: "exp x = (\<Sum>m<6. x ^ m / fact m) + (exp t / fact 6) * x ^ 6"
    using Maclaurin_exp_le [of x 6] by blast
  have "t \<le> 1" using t assms by linarith
  then have "exp t \<le> exp 1" by simp
  then have et: "exp t \<le> 3" using exp_le by linarith
  have x6: "0 \<le> x ^ 6" by simp
  have f6: "fact 6 = (720::real)" by (simp add: fact_numeral)
  have "0 \<le> (exp t / fact 6) * x ^ 6" using x6 by simp
  moreover have "(exp t / fact 6) * x ^ 6 \<le> 3 * x ^ 6 / 720"
  proof -
    have "exp t * x ^ 6 \<le> 3 * x ^ 6" using et x6 by (rule mult_right_mono)
    then show ?thesis by (simp add: f6)
  qed
  ultimately show ?thesis using e by linarith
qed

lemma exp_tenth_bounds: "90483 / 100000 \<le> exp (- (1 / 10) :: real) \<and> exp (- (1 / 10) :: real) \<le> 90484 / 100000"
  using exp_taylor_bounds [of "- (1 / 10)"]
  by (simp add: lessThan_Suc eval_nat_numeral fact_numeral)

lemma exp_24th_bounds: "95918 / 100000 \<le> exp (- (1 / 24) :: real) \<and> exp (- (1 / 24) :: real) \<le> 95919 / 100000"
  using exp_taylor_bounds [of "- (1 / 24)"]
  by (simp add: lessThan_Suc eval_nat_numeral fact_numeral)

lemma sqrt_60_bounds: "7745 / 1000 < sqrt 60 \<and> sqrt 60 < 7746 / 1000"
proof
  show "7745 / 1000 < sqrt 60" by (rule real_less_rsqrt) (simp add: power2_eq_square)
  show "sqrt 60 < 7746 / 1000" by (rule real_less_lsqrt) (simp_all add: power2_eq_square)
qed

lemma cos_taylor_bounds:
  fixes x :: real
  assumes "0 < x"
  shows "\<bar>cos x - (\<Sum>m<12. cos_coeff m * x ^ m)\<bar> \<le> x ^ 12 / fact 12"
proof -
  obtain t where
    e: "cos x = (\<Sum>m<12. cos_coeff m * x ^ m) + (cos (t + 1 / 2 * real 12 * pi) / fact 12) * x ^ 12"
    using Maclaurin_cos_expansion2 [OF assms, of 12] by auto
  have "\<bar>(cos (t + 1 / 2 * real 12 * pi) / fact 12) * x ^ 12\<bar> =
        \<bar>cos (t + 1 / 2 * real 12 * pi)\<bar> * (x ^ 12 / fact 12)"
    by (simp add: abs_mult)
  also have "\<dots> \<le> 1 * (x ^ 12 / fact 12)"
    by (intro mult_right_mono abs_cos_le_one) simp
  finally show ?thesis using e by simp
qed

lemma cos_partial_sum:
  fixes x :: real
  shows "(\<Sum>m<12. cos_coeff m * x ^ m) =
         1 - x ^ 2 / 2 + x ^ 4 / 24 - x ^ 6 / 720 + x ^ 8 / 40320 - x ^ 10 / 3628800"
proof -
  have "{..<12::nat} = {0, 1, 2, 3, 4, 5, 6, 7, 8, 9, 10, 11}" by auto presburger
  then show ?thesis by (simp add: cos_coeff_def fact_numeral)
qed

lemma cos_157_positive: "0 < cos (157 / 100 :: real)"
proof -
  have "(0::real) < (\<Sum>m<12. cos_coeff m * (157 / 100) ^ m) - (157 / 100) ^ 12 / fact 12"
    unfolding cos_partial_sum by (simp add: fact_numeral power_divide)
  then show ?thesis using cos_taylor_bounds [of "157 / 100"] by linarith
qed

lemma cos_1575_negative: "cos (1575 / 1000 :: real) < 0"
proof -
  have "(\<Sum>m<12. cos_coeff m * (1575 / 1000) ^ m) + (1575 / 1000) ^ 12 / fact 12 < (0::real)"
    unfolding cos_partial_sum by (simp add: fact_numeral power_divide)
  then show ?thesis using cos_taylor_bounds [of "1575 / 1000"] by linarith
qed

lemma pi_bounds: "314 / 100 < pi \<and> pi < 315 / 100"
proof
  have "\<not> pi / 2 \<le> 157 / 100"
  proof
    assume le: "pi / 2 \<le> 157 / 100"
    have "(157 / 100 :: real) \<le> pi" using pi_ge_two by linarith
    then have "cos (157 / 100) \<le> cos (pi / 2)"
      using le by (intro cos_monotone_0_pi_le) simp_all
    then show False using cos_157_positive by simp
  qed
  then show "314 / 100 < pi" by linarith
  have "\<not> 1575 / 1000 \<le> pi / 2"
  proof
    assume le: "1575 / 1000 \<le> pi / 2"
    have "0 \<le> cos (1575 / 1000 :: real)"
      using le by (intro cos_ge_zero) linarith+
    then show False using cos_1575_negative by simp
  qed
  then show "pi < 315 / 100" by linarith
qed

subsection \<open>The entries of the kernel\<close>

lemma chunk_concat:
  assumes "\<forall>row \<in> set rows. length row = n"
  shows "map (\<lambda>r. take n (drop (r * n) (concat rows))) [0..<length rows] = rows"
  using assms
proof (induction rows)
  case Nil
  then show ?case by simp
next
  case (Cons row rows)
  have len: "length row = n" using Cons.prems by simp
  have "[0..<length (row # rows)] = 0 # map Suc [0..<length rows]"
    by (simp add: upt_conv_Cons map_Suc_upt del: upt_Suc)
  moreover have "take n (drop (Suc r * n) (concat (row # rows))) = take n (drop (r * n) (concat rows))" for r
    using len by simp
  moreover have "take n (drop (0 * n) (concat (row # rows))) = row"
    using len by simp
  ultimately show ?case using Cons by (simp add: comp_def del: upt_Suc)
qed

lemma kernel_axis_length: "length (kernel_axis n) = n"
proof -
  have "int n div 2 - (- int n) div 2 = int n" by presburger
  then show ?thesis by (simp add: kernel_axis_def)
qed

lemma gaussian_kernel_2d_rows:
  assumes "sigma_x \<noteq> 0" and "sigma_y \<noteq> 0"
  shows "gaussian_kernel_2d n sigma_x sigma_y =
     map (\<lambda>y. map (\<lambda>x. gaussian_density sigma_x sigma_y (real_of_int x) (real_of_int y))
                (kernel_axis n)) (kernel_axis n)"
proof -
  let ?rows = "map (\<lambda>y. map (\<lambda>x. gaussian_density sigma_x sigma_y (real_of_int x) (real_of_int y))
                (kernel_axis n)) (kernel_axis n)"
  have w: "multivariate_normal
            (concat (map (\<lambda>y. map (\<lambda>x. (real_of_int x, real_of_int y)) (kernel_axis n)) (kernel_axis n)))
            (0, 0) [[sigma_x, 0], [0, sigma_y]] = concat ?rows"
    using assms
    by (simp add: multivariate_normal_def Let_def map_concat comp_def gaussian_density_def
        add_divide_distrib)
  have "map (\<lambda>r. take n (drop (r * n) (concat ?rows))) [0..<length ?rows] = ?rows"
    by (rule chunk_concat) (auto simp: kernel_axis_length)
  then show ?thesis
    by (simp add: gaussian_kernel_2d_def Let_def w kernel_axis_length)
qed

lemma kernel_axis_20:
  "kernel_axis 20 = [- 10, - 9, - 8, - 7, - 6, - 5, - 4, - 3, - 2, - 1, 0, 1, 2, 3, 4, 5, 6, 7, 8, 9]"
  by code_simp

lemma kernel_axis_nth: "i < n \<Longrightarrow> kernel_axis n ! i = (- int n) div 2 + int i"
proof -
  assume "i < n"
  moreover have "int n div 2 - (- int n) div 2 = int n" by presburger
  ultimately show ?thesis by (simp add: kernel_axis_def)
qed

subsection \<open>The sum of the default kernel\<close>

lemma axis_sum_mono: "0 \<le> a \<Longrightarrow> a \<le> b \<Longrightarrow> axis_sum a \<le> axis_sum b"
  unfolding axis_sum_def by (intro sum_list_mono power_mono)

lemma density_factors:
  "gaussian_density 5 12 (real_of_int x) (real_of_int y) =
     exp (- (1 / 10)) ^ nat (x * x) * exp (- (1 / 24)) ^ nat (y * y) / (2 * pi * sqrt 60)"
proof -
  have x: "exp (- (1 / 10)) ^ nat (x * x) = exp (- (real_of_int x * real_of_int x) / 10)"
  proof -
    have "exp (- (1 / 10)) ^ nat (x * x) = exp (real (nat (x * x)) * (- (1 / 10)))"
      by (rule exp_of_nat_mult [symmetric])
    also have "real (nat (x * x)) = real_of_int x * real_of_int x" by simp
    finally show ?thesis by simp
  qed
  have y: "exp (- (1 / 24)) ^ nat (y * y) = exp (- (real_of_int y * real_of_int y) / 24)"
  proof -
    have "exp (- (1 / 24)) ^ nat (y * y) = exp (real (nat (y * y)) * (- (1 / 24)))"
      by (rule exp_of_nat_mult [symmetric])
    also have "real (nat (y * y)) = real_of_int y * real_of_int y" by simp
    finally show ?thesis by simp
  qed
  have "- (real_of_int x * real_of_int x / 5 + real_of_int y * real_of_int y / 12) / 2 =
        - (real_of_int x * real_of_int x) / 10 + - (real_of_int y * real_of_int y) / 24"
    by (simp add: field_simps)
  then have "exp (- (real_of_int x * real_of_int x / 5 + real_of_int y * real_of_int y / 12) / 2) =
        exp (- (real_of_int x * real_of_int x) / 10) * exp (- (real_of_int y * real_of_int y) / 24)"
    by (simp only: exp_add)
  then show ?thesis by (simp add: gaussian_density_def x y)
qed

lemma default_kernel_sum:
  "sum_list (map sum_list default_kernel) =
     axis_sum (exp (- (1 / 10))) * axis_sum (exp (- (1 / 24))) / (2 * pi * sqrt 60)"
proof -
  let ?q = "exp (- (1 / 10) :: real)" and ?r = "exp (- (1 / 24) :: real)"
  let ?K = "2 * pi * sqrt 60"
  have row: "sum_list (map (\<lambda>x. gaussian_density 5 12 (real_of_int x) (real_of_int y)) (kernel_axis 20)) =
        axis_sum ?q * (?r ^ nat (y * y) / ?K)" for y
  proof -
    have "sum_list (map (\<lambda>x. gaussian_density 5 12 (real_of_int x) (real_of_int y)) (kernel_axis 20)) =
          sum_list (map (\<lambda>x. ?q ^ nat (x * x) * (?r ^ nat (y * y) / ?K)) (kernel_axis 20))"
      by (simp add: density_factors)
    also have "\<dots> = axis_sum ?q * (?r ^ nat (y * y) / ?K)"
      unfolding axis_sum_def by (rule sum_list_mult_const)
    finally show ?thesis .
  qed
  have "sum_list (map sum_list default_kernel) =
        sum_list (map (\<lambda>y. axis_sum ?q * (?r ^ nat (y * y) / ?K)) (kernel_axis 20))"
    by (simp add: default_kernel_def gaussian_kernel_2d_rows comp_def row)
  also have "\<dots> = axis_sum ?q * sum_list (map (\<lambda>y. ?r ^ nat (y * y) / ?K) (kernel_axis 20))"
    by (rule sum_list_const_mult)
  also have "sum_list (map (\<lambda>y. ?r ^ nat (y * y) / ?K) (kernel_axis 20)) =
             sum_list (map (\<lambda>y. ?r ^ nat (y * y) * (1 / ?K)) (kernel_axis 20))"
    by simp
  also have "sum_list (map (\<lambda>y. ?r ^ nat (y * y) * (1 / ?K)) (kernel_axis 20)) = axis_sum ?r * (1 / ?K)"
    unfolding axis_sum_def by (rule sum_list_mult_const)
  finally show ?thesis by simp
qed

lemma power_bounds_mult:
  fixes t :: real
  assumes "la \<le> t ^ a \<and> t ^ a \<le> ua" and "lb \<le> t ^ b \<and> t ^ b \<le> ub"
    and "c = a + b" and "0 \<le> la" and "0 \<le> lb" and "lc \<le> la * lb" and "ua * ub \<le> uc"
  shows "lc \<le> t ^ c \<and> t ^ c \<le> uc"
  unfolding assms(3)
proof
  have "la * lb \<le> t ^ a * t ^ b"
    using assms by (intro mult_mono) auto
  then show "lc \<le> t ^ (a + b)" using assms(6) by (simp add: power_add)
  have "0 \<le> t ^ a" "0 \<le> t ^ b" using assms by auto
  then have "t ^ a * t ^ b \<le> ua * ub"
    using assms by (intro mult_mono) auto
  then show "t ^ (a + b) \<le> uc" using assms(7) by (simp add: power_add)
qed

lemma axis_sum_expand:
  "axis_sum t = 1 + t ^ 100 + 2 * (t ^ 1 + t ^ 4 + t ^ 9 + t ^ 16 + t ^ 25 + t ^ 36 + t ^ 49 + t ^ 64 + t ^ 81)"
  by (simp add: axis_sum_def kernel_axis_20)

lemma axis_terms_lower:
  fixes a1 :: real
  assumes "l1 \<le> a1" "l4 \<le> a4" "l9 \<le> a9" "l16 \<le> a16" "l25 \<le> a25" "l36 \<le> a36"
    "l49 \<le> a49" "l64 \<le> a64" "l81 \<le> a81" "l100 \<le> a100"
    and "lo \<le> 1 + l100 + 2 * (l1 + l4 + l9 + l16 + l25 + l36 + l49 + l64 + l81)"
  shows "lo \<le> 1 + a100 + 2 * (a1 + a4 + a9 + a16 + a25 + a36 + a49 + a64 + a81)"
proof -
  have "1 + l100 + 2 * (l1 + l4 + l9 + l16 + l25 + l36 + l49 + l64 + l81)
        \<le> 1 + a100 + 2 * (a1 + a4 + a9 + a16 + a25 + a36 + a49 + a64 + a81)"
    by (intro add_mono mult_left_mono order_refl assms) simp
  with assms(11) show ?thesis by (rule order_trans)
qed

lemma axis_terms_upper:
  fixes a1 :: real
  assumes "a1 \<le> u1" "a4 \<le> u4" "a9 \<le> u9" "a16 \<le> u16" "a25 \<le> u25" "a36 \<le> u36"
    "a49 \<le> u49" "a64 \<le> u64" "a81 \<le> u81" "a100 \<le> u100"
    and "1 + u100 + 2 * (u1 + u4 + u9 + u16 + u25 + u36 + u49 + u64 + u81) \<le> hi"
  shows "1 + a100 + 2 * (a1 + a4 + a9 + a16 + a25 + a36 + a49 + a64 + a81) \<le> hi"
proof -
  have "1 + a100 + 2 * (a1 + a4 + a9 + a16 + a25 + a36 + a49 + a64 + a81)
        \<le> 1 + u100 + 2 * (u1 + u4 + u9 + u16 + u25 + u36 + u49 + u64 + u81)"
    by (intro add_mono mult_left_mono order_refl assms) simp
  then show ?thesis using assms(11) by (rule order_trans)
qed

lemma axis_sum_tenth_bounds:
  "56047 / 10000 \<le> axis_sum (exp (- (1 / 10))) \<and> axis_sum (exp (- (1 / 10))) \<le> 56051 / 10000"
proof -
  let ?t = "exp (- (1 / 10)) :: real"
  have p1: "90483 / 100000 \<le> ?t ^ 1 \<and> ?t ^ 1 \<le> 22621 / 25000"
    using exp_tenth_bounds by simp
  have p2: "20467933 / 25000000 \<le> ?t ^ 2 \<and> ?t ^ 2 \<le> 81873543 / 100000000"
    by (rule power_bounds_mult [OF p1 p1]) simp_all
  have p3: "74079999 / 100000000 \<le> ?t ^ 3 \<and> ?t ^ 3 \<le> 74082457 / 100000000"
    by (rule power_bounds_mult [OF p1 p2]) simp_all
  have p5: "30325289 / 50000000 \<le> ?t ^ 5 \<and> ?t ^ 5 \<le> 60653933 / 100000000"
    by (rule power_bounds_mult [OF p3 p2]) simp_all
  have p7: "24827839 / 50000000 \<le> ?t ^ 7 \<and> ?t ^ 7 \<le> 12414881 / 25000000"
    by (rule power_bounds_mult [OF p5 p2]) simp_all
  have p9: "40653963 / 100000000 \<le> ?t ^ 9 \<and> ?t ^ 9 \<le> 10164503 / 25000000"
    by (rule power_bounds_mult [OF p7 p2]) simp_all
  have p11: "33284103 / 100000000 \<le> ?t ^ 11 \<and> ?t ^ 11 \<le> 6657631 / 20000000"
    by (rule power_bounds_mult [OF p9 p2]) simp_all
  have p13: "27250271 / 100000000 \<le> ?t ^ 13 \<and> ?t ^ 13 \<le> 1703387 / 6250000"
    by (rule power_bounds_mult [OF p11 p2]) simp_all
  have p15: "5577567 / 25000000 \<le> ?t ^ 15 \<and> ?t ^ 15 \<le> 22313973 / 100000000"
    by (rule power_bounds_mult [OF p13 p2]) simp_all
  have p17: "9132901 / 50000000 \<le> ?t ^ 17 \<and> ?t ^ 17 \<le> 18269241 / 100000000"
    by (rule power_bounds_mult [OF p15 p2]) simp_all
  have p19: "467329 / 3125000 \<le> ?t ^ 19 \<and> ?t ^ 19 \<le> 598307 / 4000000"
    by (rule power_bounds_mult [OF p17 p2]) simp_all
  have p4: "13405961 / 20000000 \<le> ?t ^ 4 \<and> ?t ^ 4 \<le> 67032771 / 100000000"
    by (rule power_bounds_mult [OF p1 p3]) simp_all
  have p16: "20187 / 100000 \<le> ?t ^ 16 \<and> ?t ^ 16 \<le> 1261911 / 6250000"
    by (rule power_bounds_mult [OF p9 p7]) simp_all
  have p25: "1641363 / 20000000 \<le> ?t ^ 25 \<and> ?t ^ 25 \<le> 8209087 / 100000000"
    by (rule power_bounds_mult [OF p16 p9]) simp_all
  have p36: "682891 / 25000000 \<le> ?t ^ 36 \<and> ?t ^ 36 \<le> 1366327 / 50000000"
    by (rule power_bounds_mult [OF p25 p11]) simp_all
  have p49: "372179 / 50000000 \<le> ?t ^ 49 \<and> ?t ^ 49 \<le> 744763 / 100000000"
    by (rule power_bounds_mult [OF p36 p13]) simp_all
  have p64: "41517 / 25000000 \<le> ?t ^ 64 \<and> ?t ^ 64 \<le> 166187 / 100000000"
    by (rule power_bounds_mult [OF p49 p15]) simp_all
  have p81: "30333 / 100000000 \<le> ?t ^ 81 \<and> ?t ^ 81 \<le> 15181 / 50000000"
    by (rule power_bounds_mult [OF p64 p17]) simp_all
  have p100: "567 / 12500000 \<le> ?t ^ 100 \<and> ?t ^ 100 \<le> 2271 / 50000000"
    by (rule power_bounds_mult [OF p81 p19]) simp_all
  note lower = p1 [THEN conjunct1] p4 [THEN conjunct1] p9 [THEN conjunct1] p16 [THEN conjunct1] p25 [THEN conjunct1] p36 [THEN conjunct1] p49 [THEN conjunct1] p64 [THEN conjunct1] p81 [THEN conjunct1] p100 [THEN conjunct1]
  note upper = p1 [THEN conjunct2] p4 [THEN conjunct2] p9 [THEN conjunct2] p16 [THEN conjunct2] p25 [THEN conjunct2] p36 [THEN conjunct2] p49 [THEN conjunct2] p64 [THEN conjunct2] p81 [THEN conjunct2] p100 [THEN conjunct2]
  show ?thesis
    unfolding axis_sum_expand
  proof
    show "56047 / 10000 \<le> 1 + ?t ^ 100 + 2 * (?t ^ 1 + ?t ^ 4 + ?t ^ 9 + ?t ^ 16 + ?t ^ 25 + ?t ^ 36 + ?t ^ 49 + ?t ^ 64 + ?t ^ 81)"
      by (rule axis_terms_lower [OF lower]) simp
    show "1 + ?t ^ 100 + 2 * (?t ^ 1 + ?t ^ 4 + ?t ^ 9 + ?t ^ 16 + ?t ^ 25 + ?t ^ 36 + ?t ^ 49 + ?t ^ 64 + ?t ^ 81) \<le> 56051 / 10000"
      by (rule axis_terms_upper [OF upper]) simp
  qed
qed

lemma axis_sum_24th_bounds:
  "43231 / 5000 \<le> axis_sum (exp (- (1 / 24))) \<and> axis_sum (exp (- (1 / 24))) \<le> 86479 / 10000"
proof -
  let ?t = "exp (- (1 / 24)) :: real"
  have p1: "47959 / 50000 \<le> ?t ^ 1 \<and> ?t ^ 1 \<le> 95919 / 100000"
    using exp_24th_bounds by simp
  have p2: "92002627 / 100000000 \<le> ?t ^ 2 \<and> ?t ^ 2 \<le> 46002273 / 50000000"
    by (rule power_bounds_mult [OF p1 p1]) simp_all
  have p3: "88247079 / 100000000 \<le> ?t ^ 3 \<and> ?t ^ 3 \<le> 88249841 / 100000000"
    by (rule power_bounds_mult [OF p1 p2]) simp_all
  have p5: "8118963 / 10000000 \<le> ?t ^ 5 \<and> ?t ^ 5 \<le> 40596933 / 50000000"
    by (rule power_bounds_mult [OF p3 p2]) simp_all
  have p7: "4668537 / 6250000 \<le> ?t ^ 7 \<and> ?t ^ 7 \<le> 2334439 / 3125000"
    by (rule power_bounds_mult [OF p5 p2]) simp_all
  have p9: "34361413 / 50000000 \<le> ?t ^ 9 \<and> ?t ^ 9 \<le> 68729281 / 100000000"
    by (rule power_bounds_mult [OF p7 p2]) simp_all
  have p11: "12645361 / 20000000 \<le> ?t ^ 11 \<and> ?t ^ 11 \<le> 63234063 / 100000000"
    by (rule power_bounds_mult [OF p9 p2]) simp_all
  have p13: "58170321 / 100000000 \<le> ?t ^ 13 \<and> ?t ^ 13 \<le> 58178213 / 100000000"
    by (rule power_bounds_mult [OF p11 p2]) simp_all
  have p15: "53518223 / 100000000 \<le> ?t ^ 15 \<and> ?t ^ 15 \<le> 53526601 / 100000000"
    by (rule power_bounds_mult [OF p13 p2]) simp_all
  have p17: "49238171 / 100000000 \<le> ?t ^ 17 \<and> ?t ^ 17 \<le> 49246907 / 100000000"
    by (rule power_bounds_mult [OF p15 p2]) simp_all
  have p19: "4530041 / 10000000 \<le> ?t ^ 19 \<and> ?t ^ 19 \<le> 22654697 / 50000000"
    by (rule power_bounds_mult [OF p17 p2]) simp_all
  have p4: "84644833 / 100000000 \<le> ?t ^ 4 \<and> ?t ^ 4 \<le> 16929673 / 20000000"
    by (rule power_bounds_mult [OF p1 p3]) simp_all
  have p16: "6416701 / 12500000 \<le> ?t ^ 16 \<and> ?t ^ 16 \<le> 51342181 / 100000000"
    by (rule power_bounds_mult [OF p9 p7]) simp_all
  have p25: "17638953 / 50000000 \<le> ?t ^ 25 \<and> ?t ^ 25 \<le> 4410889 / 12500000"
    by (rule power_bounds_mult [OF p16 p9]) simp_all
  have p36: "5576273 / 25000000 \<le> ?t ^ 36 \<and> ?t ^ 36 \<le> 892539 / 4000000"
    by (rule power_bounds_mult [OF p25 p11]) simp_all
  have p49: "12974943 / 100000000 \<le> ?t ^ 49 \<and> ?t ^ 49 \<le> 6490791 / 50000000"
    by (rule power_bounds_mult [OF p36 p13]) simp_all
  have p64: "3471979 / 50000000 \<le> ?t ^ 64 \<and> ?t ^ 64 \<le> 34743 / 500000"
    by (rule power_bounds_mult [OF p49 p15]) simp_all
  have p81: "3419077 / 100000000 \<le> ?t ^ 81 \<and> ?t ^ 81 \<le> 3421971 / 100000000"
    by (rule power_bounds_mult [OF p64 p17]) simp_all
  have p100: "309771 / 20000000 \<le> ?t ^ 100 \<and> ?t ^ 100 \<le> 62019 / 4000000"
    by (rule power_bounds_mult [OF p81 p19]) simp_all
  note lower = p1 [THEN conjunct1] p4 [THEN conjunct1] p9 [THEN conjunct1] p16 [THEN conjunct1] p25 [THEN conjunct1] p36 [THEN conjunct1] p49 [THEN conjunct1] p64 [THEN conjunct1] p81 [THEN conjunct1] p100 [THEN conjunct1]
  note upper = p1 [THEN conjunct2] p4 [THEN conjunct2] p9 [THEN conjunct2] p16 [THEN conjunct2] p25 [THEN conjunct2] p36 [THEN conjunct2] p49 [THEN conjunct2] p64 [THEN conjunct2] p81 [THEN conjunct2] p100 [THEN conjunct2]
  show ?thesis
    unfolding axis_sum_expand
  proof
    show "43231 / 5000 \<le> 1 + ?t ^ 100 + 2 * (?t ^ 1 + ?t ^ 4 + ?t ^ 9 + ?t ^ 16 + ?t ^ 25 + ?t ^ 36 + ?t ^ 49 + ?t ^ 64 + ?t ^ 81)"
      by (rule axis_terms_lower [OF lower]) simp
    show "1 + ?t ^ 100 + 2 * (?t ^ 1 + ?t ^ 4 + ?t ^ 9 + ?t ^ 16 + ?t ^ 25 + ?t ^ 36 + ?t ^ 49 + ?t ^ 64 + ?t ^ 81) \<le> 86479 / 10000"
      by (rule axis_terms_upper [OF upper]) simp
  qed
qed

lemma default_kernel_rows:
  "default_kernel =
     map (\<lambda>y. map (\<lambda>x. gaussian_density 5 12 (real_of_int x) (real_of_int y))
                (kernel_axis 20)) (kernel_axis 20)"
  unfolding default_kernel_def by (rule gaussian_kernel_2d_rows) simp_all

lemma default_kernel_entry:
  assumes "r < 20" and "c < 20"
  shows "default_kernel ! r ! c = gaussian_density 5 12 (real c - 10) (real r - 10)"
proof -
  have "kernel_axis 20 ! r = int r - 10" "kernel_axis 20 ! c = int c - 10"
    using assms by (simp_all add: kernel_axis_nth)
  then show ?thesis
    using assms by (simp add: default_kernel_rows kernel_axis_length)
qed

lemma default_kernel_sum_bounds:
  "99 / 100 < sum_list (map sum_list default_kernel) \<and> sum_list (map sum_list default_kernel) < 1"
proof -
  let ?A = "axis_sum (exp (- (1 / 10)))" and ?B = "axis_sum (exp (- (1 / 24)))"
  let ?K = "2 * pi * sqrt 60"
  have A: "56047 / 10000 \<le> ?A" "?A \<le> 56051 / 10000" using axis_sum_tenth_bounds by simp_all
  have B: "86462 / 10000 \<le> ?B" "?B \<le> 86479 / 10000" using axis_sum_24th_bounds by simp_all
  have two_pi: "2 * (314 / 100) < 2 * pi" "2 * pi < 2 * (315 / 100)"
    using pi_bounds by simp_all
  have root: "7745 / 1000 < sqrt 60" "sqrt 60 < 7746 / 1000"
    using sqrt_60_bounds by simp_all
  have K_lower: "2 * (314 / 100) * (7745 / 1000) < ?K"
    using two_pi(1) root(1) by (rule mult_strict_mono) simp_all
  have K_upper: "?K < 2 * (315 / 100) * (7746 / 1000)"
    using two_pi(2) root(2) by (rule mult_strict_mono) simp_all
  have K_pos: "0 < ?K" using K_lower by simp
  have "(56047 / 10000) * (86462 / 10000) \<le> ?A * ?B"
    using A B by (intro mult_mono) simp_all
  moreover have "99 / 100 * (2 * (315 / 100) * (7746 / 1000)) < (56047 / 10000) * (86462 / 10000 :: real)"
    by simp
  ultimately have "99 / 100 * ?K < ?A * ?B" using K_upper by simp
  then have lower: "99 / 100 < ?A * ?B / ?K"
    using K_pos by (simp add: pos_less_divide_eq)
  have "0 \<le> ?A" "0 \<le> ?B" using A B by simp_all
  then have "?A * ?B \<le> (56051 / 10000) * (86479 / 10000)"
    using A B by (intro mult_mono) simp_all
  moreover have "(56051 / 10000) * (86479 / 10000) < 2 * (314 / 100) * (7745 / 1000 :: real)"
    by simp
  ultimately have "?A * ?B < ?K" using K_lower by simp
  then have upper: "?A * ?B / ?K < 1"
    using K_pos by (simp add: pos_divide_less_eq)
  show ?thesis unfolding default_kernel_sum using lower upper by simp
qed

text \<open>
  Claim C9. The default kernel has 20 rows of 20 entries; the entry in row \<open>r\<close> and column
  \<open>c\<close> is the density of the zero-mean normal distribution with covariance
  \<open>diag(5, 12)\<close> at the point \<open>(c - 10, r - 10)\<close>, the first coordinate being the one of
  \<^verbatim>\<open>kernel_sigma_rt\<close>; and the sum of all entries lies strictly between 0.99 and 1. The
  entries are those of the density as the specification describes
  \<^verbatim>\<open>utils.multivariate_normal\<close>; the sum is taken over the reals.
\<close>

theorem default_kernel_gaussian_samples:
  "length default_kernel = 20 \<and>
   (\<forall>row \<in> set default_kernel. length row = 20) \<and>
   (\<forall>r < 20. \<forall>c < 20.
      default_kernel ! r ! c = gaussian_density 5 12 (real c - 10) (real r - 10)) \<and>
   99 / 100 < sum_list (map sum_list default_kernel) \<and>
   sum_list (map sum_list default_kernel) < 1"
proof (intro conjI allI impI ballI)
  show "length default_kernel = 20" by (simp add: default_kernel_rows kernel_axis_length)
  show "length row = 20" if "row \<in> set default_kernel" for row
    using that by (auto simp: default_kernel_rows kernel_axis_length)
  show "default_kernel ! r ! c = gaussian_density 5 12 (real c - 10) (real r - 10)"
    if "r < 20" and "c < 20" for r c
    using that by (rule default_kernel_entry)
  show "99 / 100 < sum_list (map sum_list default_kernel)"
    using default_kernel_sum_bounds by simp
  show "sum_list (map sum_list default_kernel) < 1"
    using default_kernel_sum_bounds by simp
qed

text \<open>
  The centre of the kernel, row 10 and column 10, holds the density at the origin, and
  the first row has 20 entries.
\<close>

theorem default_kernel_gaussian_samples_witness:
  "default_kernel ! 10 ! 10 = 1 / (2 * pi * sqrt 60) \<and> length (default_kernel ! 0) = 20"
proof -
  have "default_kernel ! 0 \<in> set default_kernel"
    using default_kernel_gaussian_samples by simp
  then show ?thesis
    using default_kernel_gaussian_samples by (simp add: gaussian_density_def)
qed

end
